theory Spec2Isabelle
  imports Main
begin

section \<open>Strings and offsets\<close>

text \<open>
  The scanner of \<^verbatim>\<open>src/parser.ts\<close> walks raw text by offset. A JavaScript string is
  modelled as a \<^typ>\<open>string\<close> (a list of 8-bit code units), an offset as an \<^typ>\<open>int\<close>,
  because the source uses \<open>-1\<close> as its "not found" value and feeds such values back
  into \<^verbatim>\<open>charAt\<close>, \<^verbatim>\<open>slice\<close> and \<^verbatim>\<open>indexOf\<close>. An exception is a value: a
  function that can throw returns \<open>error + 'a\<close>, with \<open>Inl\<close> for the exception. A
  function whose loop need not end returns an \<open>option\<close> around that, \<open>None\<close> being
  the call that never returns.
  Definitions keep the names of the source; a variable whose source name is the name
  of a record field of the model (\<open>name\<close>, \<open>index\<close>, \<open>methods\<close>, \<open>className\<close>)
  is shortened (\<open>nm\<close>, \<open>idx\<close>, \<open>meths\<close>, \<open>cls\<close>).
\<close>

text \<open>\<^verbatim>\<open>src.charAt(i)\<close>: the empty string (falsy) out of range, here \<open>None\<close>.\<close>

definition charAt :: "string \<Rightarrow> int \<Rightarrow> char option" where
  "charAt src i = (if 0 \<le> i \<and> i < int (length src) then Some (src ! nat i) else None)"

text \<open>
  The two exceptions of the parser: the \<^verbatim>\<open>SyntaxError\<close> of \<^verbatim>\<open>findClosing\<close>
  ("Parenthesis has no closing at line n"), which carries the line number, and the
  \<^verbatim>\<open>Error("no class found")\<close> of \<^verbatim>\<open>parseDTS\<close>.
\<close>

datatype error = MismatchedDelimiter nat | NoClassFound

definition OBJECT_BRACKETS :: string where "OBJECT_BRACKETS = ''{}''"

definition ARRAY_BRACKETS :: string where "ARRAY_BRACKETS = ''[]''"

definition GENERIC_BRACKETS :: string where "GENERIC_BRACKETS = ''<>''"

definition ROUND_BRACKETS :: string where "ROUND_BRACKETS = ''()''"

section \<open>String primitives of the host language\<close>

text \<open>
  The regular-expression class \<^verbatim>\<open>\s\<close> and the characters stripped by
  \<^verbatim>\<open>trim()\<close>, among 8-bit code units: tab, line feed, vertical tab, form feed,
  carriage return, space and no-break space.
\<close>

definition isSpace :: "char \<Rightarrow> bool" where
  "isSpace c = (c \<in> set [CHR 0x09, CHR 0x0A, CHR 0x0B, CHR 0x0C, CHR 0x0D, CHR 0x20, CHR 0xA0])"

definition trim :: "string \<Rightarrow> string" where
  "trim s = rev (dropWhile isSpace (rev (dropWhile isSpace s)))"

text \<open>
  A relative index of \<^verbatim>\<open>slice\<close> and \<^verbatim>\<open>substr\<close>: negative counts from the end,
  and the result is clamped to the string.
\<close>

definition relIndex :: "nat \<Rightarrow> int \<Rightarrow> nat" where
  "relIndex len i = (if i < 0 then nat (max (int len + i) 0) else min (nat i) len)"

text \<open>\<^verbatim>\<open>src.slice(a, b)\<close>\<close>

definition slice :: "string \<Rightarrow> int \<Rightarrow> int \<Rightarrow> string" where
  "slice src a b =
     (let from = relIndex (length src) a; to = relIndex (length src) b
      in take (to - from) (drop from src))"

text \<open>\<^verbatim>\<open>src.substr(a)\<close>\<close>

definition substr :: "string \<Rightarrow> int \<Rightarrow> string" where
  "substr src a = drop (relIndex (length src) a) src"

text \<open>
  \<^verbatim>\<open>src.indexOf(search, position)\<close>: the position is clamped to the string, the
  result is the first offset from there at which \<open>search\<close> starts, or \<open>-1\<close>.
\<close>

fun indexOf_scan :: "string \<Rightarrow> string \<Rightarrow> nat \<Rightarrow> int" where
  "indexOf_scan search [] p = (if search = [] then int p else - 1)"
| "indexOf_scan search (c # cs) p =
     (if take (length search) (c # cs) = search then int p
      else indexOf_scan search cs (Suc p))"

definition indexOf :: "string \<Rightarrow> string \<Rightarrow> int \<Rightarrow> int" where
  "indexOf src search position =
     (let p = (if position < 0 then 0 else min (nat position) (length src))
      in indexOf_scan search (drop p src) p)"

text \<open>
  \<^verbatim>\<open>toUpperCase\<close> on one character. The parser applies it only to the first character
  of a text found inside \<^verbatim>\<open>"boolean|number|string|object"\<close>, where it changes the
  letters a to z and nothing else.
\<close>

definition toUpperCase :: "char \<Rightarrow> char" where
  "toUpperCase c =
     (let n = (of_char c :: nat)
      in if 97 \<le> n \<and> n \<le> 122 then char_of (n - 32) else c)"

section \<open>findClosing\<close>

text \<open>
  The \<^verbatim>\<open>while ((char = src.charAt(++offset)))\<close> loop of \<^verbatim>\<open>findClosing\<close>. The
  argument \<open>offset\<close> is the value before the increment; \<open>None\<close> means that the text
  ended and the loop fell through to the \<^verbatim>\<open>throw\<close>. The \<^verbatim>\<open>switch\<close> compares
  with \<^verbatim>\<open>brackets[0]\<close> first, then with \<^verbatim>\<open>brackets[1]\<close>; an index beyond the
  pair is \<^verbatim>\<open>undefined\<close> and equals no character.
\<close>

function findClosing_loop :: "string \<Rightarrow> string \<Rightarrow> int \<Rightarrow> int \<Rightarrow> int option" where
  "findClosing_loop src brackets offset opened =
     (case charAt src (offset + 1) of
        None \<Rightarrow> None
      | Some c \<Rightarrow>
          if Some c = charAt brackets 0
          then findClosing_loop src brackets (offset + 1) (opened + 1)
          else if Some c = charAt brackets 1
          then (if opened - 1 \<le> 0 then Some (offset + 1)
                else findClosing_loop src brackets (offset + 1) (opened - 1))
          else findClosing_loop src brackets (offset + 1) opened)"
  by pat_completeness auto
termination
  by (relation "measure (\<lambda>(src, brackets, offset, opened). nat (int (length src) - offset))")
     (auto simp: charAt_def split: if_splits)

declare findClosing_loop.simps [simp del]

text \<open>
  The line count of the error message:
  \<^verbatim>\<open>for (let i = 0, l = start; i < l; i++) if (/\n/.test(src.charAt(i))) line++\<close>.
\<close>

definition lineCount :: "string \<Rightarrow> int \<Rightarrow> nat" where
  "lineCount src start =
     fold (\<lambda>i line. if charAt src (int i) = Some (CHR 0x0A) then line + 1 else line)
       [0 ..< nat start] 1"

definition findClosing :: "string \<Rightarrow> int \<Rightarrow> string \<Rightarrow> error + int" where
  "findClosing src offset brackets =
     (case findClosing_loop src brackets offset 1 of
        Some k \<Rightarrow> Inr k
      | None \<Rightarrow> Inl (MismatchedDelimiter (lineCount src offset)))"

text \<open>
  A result of \<open>findClosing\<close> lies after the opening offset and inside the text; the
  loops of the scanner end because of it.
\<close>

lemma findClosing_loop_bounds:
  "findClosing_loop src brackets offset opened = Some k \<Longrightarrow> offset < k \<and> k < int (length src)"
proof (induction src brackets offset opened rule: findClosing_loop.induct)
  case (1 src brackets offset opened)
  note eq = "1.prems"[unfolded findClosing_loop.simps[of src brackets offset opened]]
  show ?case
  proof (cases "charAt src (offset + 1)")
    case None
    with eq show ?thesis by simp
  next
    case (Some c)
    then have b: "offset + 1 < int (length src)"
      by (auto simp: charAt_def split: if_splits)
    show ?thesis
      using eq Some b "1.IH"[OF Some]
      by (auto split: if_splits)
  qed
qed

lemma findClosing_bounds:
  "findClosing src offset brackets = Inr k \<Longrightarrow> offset < k \<and> k < int (length src)"
  by (auto simp: findClosing_def split: option.splits dest: findClosing_loop_bounds)

section \<open>goTo\<close>

text \<open>
  The search term is a string or a regular expression. The expression is only ever
  tested against the single character \<^verbatim>\<open>char\<close>, so it is a predicate on characters;
  a string term is compared with \<^verbatim>\<open>char === term\<close>.
\<close>

datatype searchTerm = TermString string | TermRegExp "char \<Rightarrow> bool"

fun termMatches :: "searchTerm \<Rightarrow> char \<Rightarrow> bool" where
  "termMatches (TermRegExp test) c = test c"
| "termMatches (TermString s) c = ([c] = s)"

text \<open>
  The inner function \<^verbatim>\<open>openString\<close>, returning the new value of the captured
  variable \<^verbatim>\<open>stringOpen\<close> (\<open>None\<close> is \<^verbatim>\<open>false\<close>).
\<close>

definition openString :: "char \<Rightarrow> char option \<Rightarrow> char option \<Rightarrow> char option" where
  "openString c prevChar stringOpen =
     (if prevChar = Some (CHR 0x5C) then stringOpen
      else if stringOpen = Some c then None
      else if stringOpen = None then Some c
      else stringOpen)"

text \<open>
  The \<^verbatim>\<open>while ((char = src.charAt(offset)))\<close> loop of \<^verbatim>\<open>goTo\<close>, with its three
  variables \<open>offset\<close>, \<open>prevChar\<close> and \<open>stringOpen\<close>. After a bracket case
  \<open>prevChar\<close> is the opening bracket, the value still held by \<^verbatim>\<open>char\<close>.
\<close>

function goTo_loop :: "string \<Rightarrow> searchTerm \<Rightarrow> int \<Rightarrow> char option \<Rightarrow> char option \<Rightarrow> error + int" where
  "goTo_loop src term offset prevChar stringOpen =
     (case charAt src offset of
        None \<Rightarrow> Inr (- 1)
      | Some c \<Rightarrow>
          if stringOpen = None \<and> termMatches term c then Inr offset
          else if c = CHR ''{'' then
            (case findClosing src offset OBJECT_BRACKETS of
               Inl e \<Rightarrow> Inl e
             | Inr k \<Rightarrow> goTo_loop src term (k + 1) (Some c) stringOpen)
          else if c = CHR ''['' then
            (case findClosing src offset ARRAY_BRACKETS of
               Inl e \<Rightarrow> Inl e
             | Inr k \<Rightarrow> goTo_loop src term (k + 1) (Some c) stringOpen)
          else if c = CHR ''<'' then
            (case findClosing src offset GENERIC_BRACKETS of
               Inl e \<Rightarrow> Inl e
             | Inr k \<Rightarrow> goTo_loop src term (k + 1) (Some c) stringOpen)
          else if c = CHR ''('' then
            (case findClosing src offset ROUND_BRACKETS of
               Inl e \<Rightarrow> Inl e
             | Inr k \<Rightarrow> goTo_loop src term (k + 1) (Some c) stringOpen)
          else if c = CHR 0x27 \<or> c = CHR 0x60 \<or> c = CHR 0x22 then
            goTo_loop src term (offset + 1) (Some c) (openString c prevChar stringOpen)
          else goTo_loop src term (offset + 1) (Some c) stringOpen)"
  by pat_completeness auto
termination
  by (relation "measure (\<lambda>(src, term, offset, prevChar, stringOpen). nat (int (length src) - offset))")
     (auto simp: charAt_def split: if_splits dest!: findClosing_bounds)

declare goTo_loop.simps [simp del]

definition goTo :: "string \<Rightarrow> searchTerm \<Rightarrow> int \<Rightarrow> error + int" where
  "goTo src term offset = goTo_loop src term offset None None"

text \<open>
  A result of \<open>goTo\<close> other than \<open>-1\<close> is an offset of the text, not before the
  start offset.
\<close>

lemma goTo_loop_bounds:
  "goTo_loop src term offset prevChar stringOpen = Inr k \<Longrightarrow>
     k = - 1 \<or> (offset \<le> k \<and> 0 \<le> k \<and> k < int (length src))"
proof (induction src "term" offset prevChar stringOpen rule: goTo_loop.induct)
  case (1 src "term" offset prevChar stringOpen)
  note eq = "1.prems"[unfolded goTo_loop.simps[of src "term" offset prevChar stringOpen]]
  show ?case
  proof (cases "charAt src offset")
    case None
    with eq show ?thesis by simp
  next
    case (Some c)
    then have b: "0 \<le> offset" "offset < int (length src)"
      by (auto simp: charAt_def split: if_splits)
    show ?thesis
    proof (cases "stringOpen = None \<and> termMatches term c")
      case True
      with eq Some b show ?thesis by simp
    next
      case nm: False
      from eq have eq': "(if c = CHR ''{'' then
            (case findClosing src offset OBJECT_BRACKETS of
               Inl e \<Rightarrow> Inl e
             | Inr k \<Rightarrow> goTo_loop src term (k + 1) (Some c) stringOpen)
          else if c = CHR ''['' then
            (case findClosing src offset ARRAY_BRACKETS of
               Inl e \<Rightarrow> Inl e
             | Inr k \<Rightarrow> goTo_loop src term (k + 1) (Some c) stringOpen)
          else if c = CHR ''<'' then
            (case findClosing src offset GENERIC_BRACKETS of
               Inl e \<Rightarrow> Inl e
             | Inr k \<Rightarrow> goTo_loop src term (k + 1) (Some c) stringOpen)
          else if c = CHR ''('' then
            (case findClosing src offset ROUND_BRACKETS of
               Inl e \<Rightarrow> Inl e
             | Inr k \<Rightarrow> goTo_loop src term (k + 1) (Some c) stringOpen)
          else if c = CHR 0x27 \<or> c = CHR 0x60 \<or> c = CHR 0x22 then
            goTo_loop src term (offset + 1) (Some c) (openString c prevChar stringOpen)
          else goTo_loop src term (offset + 1) (Some c) stringOpen) = Inr k"
        by (simp only: Some option.case nm if_False)
      consider (A) "c = CHR ''{''"
        | (B) "c \<noteq> CHR ''{''" "c = CHR ''[''"
        | (C) "c \<noteq> CHR ''{''" "c \<noteq> CHR ''[''" "c = CHR ''<''"
        | (D) "c \<noteq> CHR ''{''" "c \<noteq> CHR ''[''" "c \<noteq> CHR ''<''" "c = CHR ''(''"
        | (E) "c \<noteq> CHR ''{''" "c \<noteq> CHR ''[''" "c \<noteq> CHR ''<''" "c \<noteq> CHR ''(''"
              "c = CHR 0x27 \<or> c = CHR 0x60 \<or> c = CHR 0x22"
        | (F) "c \<noteq> CHR ''{''" "c \<noteq> CHR ''[''" "c \<noteq> CHR ''<''" "c \<noteq> CHR ''(''"
              "\<not> (c = CHR 0x27 \<or> c = CHR 0x60 \<or> c = CHR 0x22)"
        by blast
      then show ?thesis
      proof cases
        case A
        show ?thesis
        proof (cases "findClosing src offset OBJECT_BRACKETS")
          case (Inl e)
          with eq' A show ?thesis by simp
        next
          case (Inr k')
          with eq' A have "goTo_loop src term (k' + 1) (Some c) stringOpen = Inr k"
            by simp
          from "1.IH"(1)[OF Some nm A Inr this] findClosing_bounds[OF Inr] b
          show ?thesis by auto
        qed
      next
        case B
        show ?thesis
        proof (cases "findClosing src offset ARRAY_BRACKETS")
          case (Inl e)
          with eq' B show ?thesis by simp
        next
          case (Inr k')
          with eq' B have "goTo_loop src term (k' + 1) (Some c) stringOpen = Inr k"
            by simp
          from "1.IH"(2)[OF Some nm B Inr this] findClosing_bounds[OF Inr] b
          show ?thesis by auto
        qed
      next
        case C
        show ?thesis
        proof (cases "findClosing src offset GENERIC_BRACKETS")
          case (Inl e)
          with eq' C show ?thesis by simp
        next
          case (Inr k')
          with eq' C have "goTo_loop src term (k' + 1) (Some c) stringOpen = Inr k"
            by simp
          from "1.IH"(3)[OF Some nm C Inr this] findClosing_bounds[OF Inr] b
          show ?thesis by auto
        qed
      next
        case D
        show ?thesis
        proof (cases "findClosing src offset ROUND_BRACKETS")
          case (Inl e)
          with eq' D show ?thesis by simp
        next
          case (Inr k')
          with eq' D have "goTo_loop src term (k' + 1) (Some c) stringOpen = Inr k"
            by simp
          from "1.IH"(4)[OF Some nm D Inr this] b
          show ?thesis using findClosing_bounds[OF Inr] by auto
        qed
      next
        case E
        with eq' have "goTo_loop src term (offset + 1) (Some c)
            (openString c prevChar stringOpen) = Inr k"
          by simp
        from "1.IH"(5)[OF Some nm E this] b show ?thesis by auto
      next
        case F
        with eq' have "goTo_loop src term (offset + 1) (Some c) stringOpen = Inr k"
          by simp
        from "1.IH"(6)[OF Some nm F this] b show ?thesis by auto
      qed
    qed
  qed
qed

section \<open>split\<close>

text \<open>
  The \<^verbatim>\<open>do ... while (start > 0)\<close> loop of \<^verbatim>\<open>split\<close>; \<open>chunks\<close> is the array
  built so far.
\<close>

function split_loop :: "string \<Rightarrow> searchTerm \<Rightarrow> bool \<Rightarrow> int \<Rightarrow> string list \<Rightarrow> error + string list" where
  "split_loop src term trimFlag start chunks =
     (case goTo src term start of
        Inl e \<Rightarrow> Inl e
      | Inr comma \<Rightarrow>
          (let chunk = (if comma = - 1 then substr src start else slice src start comma);
               chunks' = chunks @ [if trimFlag then trim chunk else chunk];
               start' = comma + 1
           in if start' > 0 then split_loop src term trimFlag start' chunks' else Inr chunks'))"
  by pat_completeness auto
termination
  by (relation "measure (\<lambda>(src, term, trimFlag, start, chunks). nat (int (length src) - start))")
     (auto simp: goTo_def dest!: goTo_loop_bounds)

declare split_loop.simps [simp del]

definition split :: "string \<Rightarrow> searchTerm \<Rightarrow> bool \<Rightarrow> error + string list" where
  "split src term trimFlag = split_loop src term trimFlag 0 []"

section \<open>getType\<close>

definition TYPES_OBJECT :: string where "TYPES_OBJECT = ''Object''"

definition TYPES_ARRAY :: string where "TYPES_ARRAY = ''Array''"

definition TYPES_STRING :: string where "TYPES_STRING = ''String''"

text \<open>
  \<^verbatim>\<open>TYPES.IS_PRIMITIVE\<close> and \<^verbatim>\<open>TYPES.IS_IGNORED\<close> are substring tests
  (\<^verbatim>\<open>"...".indexOf(type) !== -1\<close>). \<^verbatim>\<open>IS_PRIMITIVE\<close> is applied to the result of the
  reduction, which may be \<^verbatim>\<open>null\<close>; \<^verbatim>\<open>indexOf\<close> then searches the text "null".
\<close>

definition IS_PRIMITIVE :: "string option \<Rightarrow> bool" where
  "IS_PRIMITIVE t =
     (indexOf ''boolean|number|string|object'' (case t of None \<Rightarrow> ''null'' | Some s \<Rightarrow> s) 0 \<noteq> - 1)"

definition IS_IGNORED :: "string \<Rightarrow> bool" where
  "IS_IGNORED t = (indexOf ''void|null|undefined|never'' t 0 \<noteq> - 1)"

text \<open>
  The result of a call: \<^verbatim>\<open>{ type, end }\<close>, the type being \<^verbatim>\<open>null\<close> (\<open>None\<close>) or a
  string.
\<close>

record FoundType =
  foundType :: "string option"
  foundEnd :: int

text \<open>
  The callback of \<^verbatim>\<open>types.reduce((type, result) => ..., null)\<close>: \<open>type\<close> is the running
  result, \<open>result\<close> the member. \<^verbatim>\<open>!type\<close> holds for \<^verbatim>\<open>null\<close> and for the empty
  string.
\<close>

definition reduceStep :: "string option \<Rightarrow> string \<Rightarrow> string option" where
  "reduceStep type result =
     (if result = TYPES_OBJECT \<or> type = None \<or> type = Some [] then Some result
      else if IS_IGNORED result then type
      else if Some result \<noteq> type then Some TYPES_OBJECT
      else type)"

definition reduceTypes :: "string list \<Rightarrow> string option" where
  "reduceTypes types = foldl reduceStep None types"

text \<open>
  \<^verbatim>\<open>if (TYPES.IS_PRIMITIVE(type)) type = `${type.charAt(0).toUpperCase()}${type.substr(1)}`\<close>
\<close>

definition capitalizePrimitive :: "string option \<Rightarrow> string option" where
  "capitalizePrimitive t =
     (if IS_PRIMITIVE t
      then (case t of
              None \<Rightarrow> None
            | Some s \<Rightarrow> Some ((case charAt s 0 of None \<Rightarrow> [] | Some c \<Rightarrow> [toUpperCase c]) @ substr s 1))
      else t)"

text \<open>The code after the loop: reduction, capitalisation, \<^verbatim>\<open>return { type, end: index }\<close>.\<close>

definition getType_result :: "string list \<Rightarrow> int \<Rightarrow> FoundType" where
  "getType_result types index =
     \<lparr>foundType = capitalizePrimitive (reduceTypes types), foundEnd = index\<rparr>"

text \<open>\<^verbatim>\<open>type = src.slice(start, index).trim(); if (type.length > 0) types.push(type)\<close>\<close>

definition pushMember :: "string \<Rightarrow> int \<Rightarrow> int \<Rightarrow> string list \<Rightarrow> string list" where
  "pushMember src start index types =
     (let type = trim (slice src start index)
      in if length type > 0 then types @ [type] else types)"

text \<open>
  The \<^verbatim>\<open>while (!done && (char = src.charAt(index)))\<close> loop of \<^verbatim>\<open>getType\<close> with its
  variables \<open>start\<close>, \<open>index\<close> and \<open>types\<close>; a terminator sets \<open>done\<close> and leaves
  the loop with \<open>index\<close> unchanged. The loop need not end (an unterminated string
  literal type sends \<open>index\<close> back to 0), so the function is partial: \<open>None\<close> is a
  call that never returns. The \<^verbatim>\<open>case ""\<close> of the \<^verbatim>\<open>switch\<close> has no counterpart, the
  loop condition having excluded the empty \<open>char\<close>.
\<close>

partial_function (option) getType_loop ::
  "string \<Rightarrow> int \<Rightarrow> int \<Rightarrow> string list \<Rightarrow> (error + FoundType) option" where
  "getType_loop src start index types =
     (case charAt src index of
        None \<Rightarrow> Some (Inr (getType_result types index))
      | Some c \<Rightarrow>
          if c = CHR '')'' \<or> c = CHR '','' \<or> c = CHR '';'' then
            Some (Inr (getType_result (pushMember src start index types) index))
          else if c = CHR ''{'' then
            (case findClosing src index OBJECT_BRACKETS of
               Inl e \<Rightarrow> Some (Inl e)
             | Inr k \<Rightarrow> getType_loop src (k + 1) (k + 1) (types @ [TYPES_OBJECT]))
          else if c = CHR ''['' then
            (case findClosing src index ARRAY_BRACKETS of
               Inl e \<Rightarrow> Some (Inl e)
             | Inr k \<Rightarrow> getType_loop src (k + 1) (k + 1) (types @ [TYPES_ARRAY]))
          else if c = CHR ''<'' then
            (case findClosing src index GENERIC_BRACKETS of
               Inl e \<Rightarrow> Some (Inl e)
             | Inr k \<Rightarrow>
                 if k = - 1 then Some (Inr \<lparr>foundType = None, foundEnd = - 1\<rparr>)
                 else getType_loop src (k + 1) (k + 1) (pushMember src start index types))
          else if c = CHR 0x22 then
            (let k = indexOf src [CHR 0x22] (index + 1)
             in getType_loop src (k + 1) (k + 1) (types @ [TYPES_STRING]))
          else if c = CHR ''|'' \<or> c = CHR ''&'' then
            getType_loop src (index + 1) (index + 1) (pushMember src start index types)
          else getType_loop src start (index + 1) types)"

declare getType_loop.simps [code]

definition getType :: "string \<Rightarrow> int \<Rightarrow> (error + FoundType) option" where
  "getType src offset =
     (case goTo src (TermRegExp (\<lambda>c. \<not> isSpace c)) offset of
        Inl e \<Rightarrow> Some (Inl e)
      | Inr start \<Rightarrow> getType_loop src start start [])"

section \<open>regExpClosestIndexOf and getPropertyNoType\<close>

text \<open>
  \<^verbatim>\<open>{ index, found }\<close>. The expression is matched against one character at a time, so
  it is a predicate on characters and \<open>found\<close> is the matching character
  (\<^verbatim>\<open>null\<close> when there is none).
\<close>

record FoundMatch =
  index :: int
  found :: "char option"

function regExpClosestIndexOf :: "string \<Rightarrow> (char \<Rightarrow> bool) \<Rightarrow> int \<Rightarrow> FoundMatch" where
  "regExpClosestIndexOf src term offset =
     (case charAt src offset of
        None \<Rightarrow> \<lparr>index = - 1, found = None\<rparr>
      | Some c \<Rightarrow>
          if term c then \<lparr>index = offset, found = Some c\<rparr>
          else regExpClosestIndexOf src term (offset + 1))"
  by pat_completeness auto
termination
  by (relation "measure (\<lambda>(src, term, offset). nat (int (length src) - offset))")
     (auto simp: charAt_def split: if_splits)

declare regExpClosestIndexOf.simps [simp del]

text \<open>\<^verbatim>\<open>s.split(" ")\<close>, for a one-character separator: never the empty list.\<close>

fun splitOn :: "char \<Rightarrow> string \<Rightarrow> string list" where
  "splitOn sep [] = ['''']"
| "splitOn sep (c # cs) =
     (if c = sep then [] # splitOn sep cs
      else (case splitOn sep cs of w # ws \<Rightarrow> (c # w) # ws | [] \<Rightarrow> [c # '''']))"

record PropertyConfig =
  name :: string
  modifiers :: "string list"

text \<open>
  \<^verbatim>\<open>let [...modifiers] = src.slice(from, to).split(" "); let name = modifiers.pop()\<close>
\<close>

definition getPropertyNoType :: "string \<Rightarrow> int \<Rightarrow> int \<Rightarrow> PropertyConfig" where
  "getPropertyNoType src from to =
     (let tokens = splitOn (CHR '' '') (slice src from to)
      in \<lparr>name = last tokens, modifiers = butlast tokens\<rparr>)"

section \<open>parseParams\<close>

record ParamConfig =
  paramName :: string
  paramType :: "string option"

text \<open>A type that passes \<^verbatim>\<open>if (type)\<close>: neither \<^verbatim>\<open>null\<close> nor the empty string.\<close>

definition truthy :: "string option \<Rightarrow> string option" where
  "truthy t = (case t of None \<Rightarrow> None | Some s \<Rightarrow> if s = [] then None else Some s)"

text \<open>
  The \<^verbatim>\<open>while (from < to)\<close> loop of \<^verbatim>\<open>parseParams\<close>. It calls \<open>getType\<close> and
  continues from the offset that call returns, so it is partial as well.
\<close>

partial_function (option) parseParams_loop ::
  "string \<Rightarrow> int \<Rightarrow> int \<Rightarrow> ParamConfig list \<Rightarrow> (error + ParamConfig list) option" where
  "parseParams_loop src from to params =
     (if from < to then
        (let firstStop = regExpClosestIndexOf src (\<lambda>c. c = CHR '','' \<or> c = CHR '':'') from
         in if index firstStop = - 1
            then Some (Inr (params @ [\<lparr>paramName = trim (slice src from to), paramType = None\<rparr>]))
            else if found firstStop = Some (CHR '':'')
            then (case getType src (index firstStop + 1) of
                    None \<Rightarrow> None
                  | Some (Inl e) \<Rightarrow> Some (Inl e)
                  | Some (Inr t) \<Rightarrow>
                      parseParams_loop src (foundEnd t + 1) to
                        (params @ [\<lparr>paramName = trim (slice src from (index firstStop)),
                                    paramType = truthy (foundType t)\<rparr>]))
            else parseParams_loop src (index firstStop + 1) to
                   (params @ [\<lparr>paramName = trim (slice src from (index firstStop)),
                               paramType = None\<rparr>]))
      else Some (Inr params))"

declare parseParams_loop.simps [code]

definition parseParams :: "string \<Rightarrow> int \<Rightarrow> int \<Rightarrow> (error + ParamConfig list) option" where
  "parseParams src from to = parseParams_loop src from to []"

section \<open>buildField\<close>

text \<open>
  A field configuration: the name, the optional type and parameter list, and the
  modifier keys that \<^verbatim>\<open>arrToObject\<close> set to \<^verbatim>\<open>true\<close>. The order in which an object
  lists its keys plays no part in the parser, so the keys are a set.
\<close>

record FieldConfig =
  fieldName :: string
  fieldType :: "string option"
  fieldParams :: "ParamConfig list option"
  fieldFlags :: "string set"

text \<open>
  \<^verbatim>\<open>arrToObject(arr)\<close> with the default value \<^verbatim>\<open>true\<close>: the own keys of the object it
  returns, each with the value \<^verbatim>\<open>true\<close>. The assignment \<^verbatim>\<open>obj["__proto__"] = true\<close>
  reaches the prototype accessor of the object, which ignores a value that is not an
  object, so this key is never created.
\<close>

definition arrToObject :: "string list \<Rightarrow> string set" where
  "arrToObject arr = set (filter (\<lambda>key. key \<noteq> ''__proto__'') arr)"

text \<open>
  \<^verbatim>\<open>Object.assign({}, arrToObject(mods), config)\<close>: the keys of \<open>config\<close> (always
  \<^verbatim>\<open>name\<close>, \<^verbatim>\<open>params\<close> when a list was passed, \<^verbatim>\<open>type\<close> when it is truthy) replace
  modifier keys of the same name.
\<close>

definition buildField ::
  "string list \<Rightarrow> string \<Rightarrow> ParamConfig list option \<Rightarrow> string option \<Rightarrow> FieldConfig" where
  "buildField mods nm params type =
     \<lparr>fieldName = nm,
      fieldType = truthy type,
      fieldParams = params,
      fieldFlags = Set.filter (\<lambda>key. key \<noteq> ''name'' \<and> (params = None \<or> key \<noteq> ''params'')
                                       \<and> (truthy type = None \<or> key \<noteq> ''type''))
                     (arrToObject mods)\<rparr>"

section \<open>parseDTS\<close>

text \<open>\<^verbatim>\<open>[\w$_]\<close>\<close>

definition isWordChar :: "char \<Rightarrow> bool" where
  "isWordChar c =
     (let n = (of_char c :: nat)
      in (65 \<le> n \<and> n \<le> 90) \<or> (97 \<le> n \<and> n \<le> 122) \<or> (48 \<le> n \<and> n \<le> 57)
         \<or> c = CHR ''_'' \<or> c = CHR ''$'')"

text \<open>
  The optional group \<^verbatim>\<open>(?:[\s]+extends ([^{]+))?\<close> together with the \<^verbatim>\<open>[\s]*\{\<close> that
  follows it, matched at the head of the text: the captured parent and the number of
  characters consumed. \<^verbatim>\<open>[^{]+\<close> is greedy and runs up to the next \<^verbatim>\<open>{\<close>, which must
  exist; giving characters back cannot help, since none of them is a \<^verbatim>\<open>{\<close>.
\<close>

definition matchExtends :: "string \<Rightarrow> (string \<times> nat) option" where
  "matchExtends s =
     (let ws = takeWhile isSpace s; r = dropWhile isSpace s
      in if ws = [] \<or> take 8 r \<noteq> ''extends '' then None
         else (let parent = takeWhile (\<lambda>c. c \<noteq> CHR ''{'') (drop 8 r);
                   rest = dropWhile (\<lambda>c. c \<noteq> CHR ''{'') (drop 8 r)
               in if parent = [] \<or> rest = [] then None
                  else Some (parent, length ws + 8 + length parent + 1)))"

text \<open>
  The expression \<^verbatim>\<open>/[\s\n]class ([\w$_]+)(?:[\s]+extends ([^{]+))?[\s]*\{/\<close> matched at
  the head of the text: class name, parent (\<^verbatim>\<open>undefined\<close> when the group did not
  take part) and length of the match. The name is the longest run of word characters;
  a shorter one is followed by a word character, which neither alternative accepts.
\<close>

definition matchClassAt :: "string \<Rightarrow> (string \<times> string option \<times> nat) option" where
  "matchClassAt s =
     (case s of
        [] \<Rightarrow> None
      | c # rest \<Rightarrow>
          if \<not> isSpace c \<or> take 6 rest \<noteq> ''class '' then None
          else (let nm = takeWhile isWordChar (drop 6 rest);
                    r = dropWhile isWordChar (drop 6 rest)
                in if nm = [] then None
                   else (case matchExtends r of
                           Some (parent, n) \<Rightarrow> Some (nm, Some parent, 7 + length nm + n)
                         | None \<Rightarrow>
                             (let ws = takeWhile isSpace r
                              in if take 1 (dropWhile isSpace r) = ''{''
                                 then Some (nm, None, 7 + length nm + length ws + 1)
                                 else None))))"

text \<open>\<^verbatim>\<open>src.match(...)\<close>: the leftmost match, with its index.\<close>

fun matchClass :: "string \<Rightarrow> nat \<Rightarrow> (nat \<times> string \<times> string option \<times> nat) option" where
  "matchClass [] i = None"
| "matchClass (c # cs) i =
     (case matchClassAt (c # cs) of
        Some m \<Rightarrow> Some (i, m)
      | None \<Rightarrow> matchClass cs (Suc i))"

record DTSParsedData =
  className :: string
  parent :: "string option"
  properties :: "FieldConfig list"
  methods :: "FieldConfig list"

text \<open>
  One pass through the body of the \<^verbatim>\<open>for\<close> loop of \<^verbatim>\<open>parseDTS\<close>, entered with
  \<open>ptr\<close>: either the \<^verbatim>\<open>break\<close> at the closing brace, or the value of \<open>ptr\<close> at the
  end of the body (before the \<^verbatim>\<open>++ptr\<close> of the loop header) with the two lists.
\<close>

datatype pass = Break | Next int "FieldConfig list" "FieldConfig list"

text \<open>
  The tail of the body, from \<^verbatim>\<open>getType(src, ptr + 1)\<close> on, reached by a property with
  a colon and by a method with a return type.
\<close>

definition typedField ::
  "string \<Rightarrow> int \<Rightarrow> PropertyConfig \<Rightarrow> ParamConfig list option \<Rightarrow>
   FieldConfig list \<Rightarrow> FieldConfig list \<Rightarrow> (error + pass) option" where
  "typedField src ptr prop params props meths =
     (case getType src (ptr + 1) of
        None \<Rightarrow> None
      | Some (Inl e) \<Rightarrow> Some (Inl e)
      | Some (Inr t) \<Rightarrow>
          (let ptr' = indexOf src '';'' (foundEnd t)
           in if params \<noteq> None
              then Some (Inr (Next ptr' props
                     (meths @ [buildField (modifiers prop) (name prop) params (foundType t)])))
              else Some (Inr (Next ptr'
                     (props @ [buildField (modifiers prop) (name prop) None (foundType t)])
                     meths))))"

definition parseDTS_body ::
  "string \<Rightarrow> int \<Rightarrow> FieldConfig list \<Rightarrow> FieldConfig list \<Rightarrow> (error + pass) option" where
  "parseDTS_body src ptr props meths =
     (case goTo src (TermRegExp (\<lambda>c. \<not> isSpace c)) ptr of
        Inl e \<Rightarrow> Some (Inl e)
      | Inr from \<Rightarrow>
          if charAt src from = Some (CHR ''}'') then Some (Inr Break)
          else
            (let stop = regExpClosestIndexOf src
                          (\<lambda>c. c = CHR '';'' \<or> c = CHR '':'' \<or> c = CHR ''('') from;
                 prop = getPropertyNoType src from (index stop)
             in if found stop = Some (CHR ''('') then
                  (case findClosing src (index stop) ROUND_BRACKETS of
                     Inl e \<Rightarrow> Some (Inl e)
                   | Inr close \<Rightarrow>
                       (case parseParams src (index stop + 1) close of
                          None \<Rightarrow> None
                        | Some (Inl e) \<Rightarrow> Some (Inl e)
                        | Some (Inr params) \<Rightarrow>
                            (let closing = regExpClosestIndexOf src
                                             (\<lambda>c. c = CHR '';'' \<or> c = CHR '':'') close
                             in if found closing = Some (CHR '';'')
                                then Some (Inr (Next (index closing + 1) props
                                       (meths @ [buildField (modifiers prop) (name prop)
                                                   (Some params) None])))
                                else typedField src (index closing + 1) prop (Some params)
                                       props meths)))
                else if found stop = Some (CHR '';'') then
                  Some (Inr (Next (index stop)
                    (props @ [buildField (modifiers prop) (name prop) None None]) meths))
                else typedField src (index stop) prop None props meths))"

text \<open>
  The \<^verbatim>\<open>for (ptr = start; ptr < end; ++ptr)\<close> loop. Nothing bounds it: \<^verbatim>\<open>indexOf\<close>
  and the scanners can send \<open>ptr\<close> back to \<open>-1\<close>, so the function is partial.
\<close>

partial_function (option) parseDTS_loop ::
  "string \<Rightarrow> int \<Rightarrow> FieldConfig list \<Rightarrow> FieldConfig list \<Rightarrow>
   (error + FieldConfig list \<times> FieldConfig list) option" where
  "parseDTS_loop src ptr props meths =
     (if ptr < int (length src) then
        (case parseDTS_body src ptr props meths of
           None \<Rightarrow> None
         | Some (Inl e) \<Rightarrow> Some (Inl e)
         | Some (Inr Break) \<Rightarrow> Some (Inr (props, meths))
         | Some (Inr (Next ptr' props' meths')) \<Rightarrow> parseDTS_loop src (ptr' + 1) props' meths')
      else Some (Inr (props, meths)))"

declare parseDTS_loop.simps [code]

definition parseDTS :: "string \<Rightarrow> (error + DTSParsedData) option" where
  "parseDTS src =
     (case matchClass src 0 of
        None \<Rightarrow> Some (Inl NoClassFound)
      | Some (i, nm, par, len) \<Rightarrow>
          (case parseDTS_loop src (int (i + len)) [] [] of
             None \<Rightarrow> None
           | Some (Inl e) \<Rightarrow> Some (Inl e)
           | Some (Inr (props, meths)) \<Rightarrow>
               Some (Inr \<lparr>className = nm, parent = par, properties = props, methods = meths\<rparr>)))"

section \<open>Regular expressions of the compiled-source extractor\<close>

text \<open>
  The extractor finds its places with regular expressions that it builds from the class
  name and the member names of the declaration, and passes to \<^verbatim>\<open>String.replace\<close>
  together with a callback. The expressions are run by the regular-expression engine of
  the host language, which is no part of the repository. What the engine finds is
  therefore given to the model: for a \<^verbatim>\<open>replace\<close> with the global flag, the list of the
  successive matches in the searched text, each with its offset and with the groups that
  the callback names. The model says nothing of how the names shape an expression: a
  run in which the host rejects the expression, or in which a name adds a group to it,
  has no matches of this form and lies outside the model.
\<close>

text \<open>
  \<^verbatim>\<open>obj[key] = value\<close> on an object created by \<^verbatim>\<open>{}\<close>, as a table of its own keys.
  The key \<^verbatim>\<open>__proto__\<close> names the prototype accessor: the assignment creates no own key
  (a string is ignored, an array becomes the prototype).
\<close>

definition setKey :: "(string \<rightharpoonup> 'a) \<Rightarrow> string \<Rightarrow> 'a \<Rightarrow> (string \<rightharpoonup> 'a)" where
  "setKey obj key v = (if key = ''__proto__'' then obj else obj(key \<mapsto> v))"

section \<open>methodsAnalyzer\<close>

text \<open>
  A match of the method expression, \<^verbatim>\<open>((m1|m2|...))\(.*?\) {\<close> for a native class and
  \<^verbatim>\<open>(C.prototype.(m1|m2|...) = function ?)\(.*?\) {\<close> otherwise: the offset of the match
  and its groups \<open>boiler\<close> and \<open>name\<close>.
\<close>

type_synonym methodMatch = "nat \<times> string \<times> string"

text \<open>
  The replacer callback \<^verbatim>\<open>(_, boiler, name, index) => ...\<close>: \<open>src\<close> is the source the
  analyzer was created with, \<open>methodBodies\<close> the table it fills.
\<close>

definition methodsCallback ::
  "string \<Rightarrow> string \<Rightarrow> string \<Rightarrow> int \<Rightarrow> (string \<rightharpoonup> string) \<Rightarrow> error + (string \<rightharpoonup> string)" where
  "methodsCallback src boiler nm idx methodBodies =
     (case findClosing src (indexOf src ''{'' (idx + int (length boiler))) OBJECT_BRACKETS of
        Inl e \<Rightarrow> Inl e
      | Inr close \<Rightarrow>
          Inr (setKey methodBodies nm (trim (slice src (idx + int (length boiler)) (close + 1)))))"

text \<open>
  \<^verbatim>\<open>text.replace(regexp, callback)\<close> with the global flag, for the method expression:
  the callback is called for each match, in the order of the text. It returns the match
  itself, so only the table changes; an exception of the callback ends the replace.
\<close>

fun replaceMethods ::
  "string \<Rightarrow> methodMatch list \<Rightarrow> (string \<rightharpoonup> string) \<Rightarrow> error + (string \<rightharpoonup> string)" where
  "replaceMethods src [] methodBodies = Inr methodBodies"
| "replaceMethods src ((idx, boiler, nm) # matches) methodBodies =
     (case methodsCallback src boiler nm (int idx) methodBodies of
        Inl e \<Rightarrow> Inl e
      | Inr methodBodies' \<Rightarrow> replaceMethods src matches methodBodies')"

text \<open>
  The step "get method bodies" of \<^verbatim>\<open>parseJS\<close>,
  \<^verbatim>\<open>src.replace(...removeExtend(...)).replace(...methodsAnalyzer({ src, methodBodies, ... }))\<close>,
  with the table empty as \<^verbatim>\<open>parseJS\<close> creates it. \<open>matches\<close> are the matches of the
  method expression in the text that the first \<^verbatim>\<open>replace\<close> returns; the callback reads
  \<open>src\<close> itself. The result is the table \<open>methodBodies\<close> that \<^verbatim>\<open>parseJS\<close> returns, no
  other step writing to it.
\<close>

definition methodsAnalyzer :: "string \<Rightarrow> methodMatch list \<Rightarrow> error + (string \<rightharpoonup> string)" where
  "methodsAnalyzer src matches = replaceMethods src matches Map.empty"

section \<open>fieldDecoratorsAnalyzer\<close>

text \<open>
  \<^verbatim>\<open>{ src, name, params, descriptor }\<close>: the source text of a decorator call, its bare
  name, the text between its parentheses (\<^verbatim>\<open>undefined\<close> without parentheses) and the
  descriptor argument of the application it came from.
\<close>

record Decorator =
  decSrc :: string
  decName :: string
  decParams :: "string option"
  decDescriptor :: "string option"

text \<open>
  \<^verbatim>\<open>let ptr = decor.indexOf("("); let [name, params = undefined] = ptr !== -1 ?
  [decor.slice(0, ptr), decor.slice(ptr + 1, decor.length - 1)] : [decor]\<close>
\<close>

definition readDecorator :: "string option \<Rightarrow> string \<Rightarrow> Decorator" where
  "readDecorator descriptor decor =
     (let ptr = indexOf decor ''('' 0
      in if ptr \<noteq> - 1
         then \<lparr>decSrc = decor, decName = slice decor 0 ptr,
               decParams = Some (slice decor (ptr + 1) (int (length decor) - 1)),
               decDescriptor = descriptor\<rparr>
         else \<lparr>decSrc = decor, decName = decor, decParams = None,
               decDescriptor = descriptor\<rparr>)"

text \<open>
  The \<^verbatim>\<open>for\<close> loop over the decorators of one application, with the two arrays
  \<open>usedDecorators\<close> and \<open>usedAnnotations\<close> it pushes to.
\<close>

definition classify ::
  "string list \<Rightarrow> string option \<Rightarrow> string list \<Rightarrow> Decorator list \<times> Decorator list" where
  "classify definedAnnotations descriptor decors =
     fold (\<lambda>decor (usedDecorators, usedAnnotations).
             let d = readDecorator descriptor decor
             in if decName d \<in> set definedAnnotations
                then (usedDecorators, usedAnnotations @ [d])
                else (usedDecorators @ [d], usedAnnotations))
       decors ([], [])"

text \<open>\<^verbatim>\<open>array.toString()\<close> on strings: the elements joined by commas.\<close>

fun joinComma :: "string list \<Rightarrow> string" where
  "joinComma [] = []"
| "joinComma [s] = s"
| "joinComma (s # t # ts) = s @ '','' @ joinComma (t # ts)"

type_synonym decoratorTable = "string \<rightharpoonup> Decorator list"

text \<open>
  The replacer callback \<^verbatim>\<open>(_, definition, proto, name, descriptor) => ...\<close>, with the
  two tables it assigns to; the third component of the result is the replacement text.
\<close>

definition fieldDecoratorsCallback ::
  "string list \<Rightarrow> string \<Rightarrow> string \<Rightarrow> string \<Rightarrow> string \<Rightarrow> decoratorTable \<Rightarrow> decoratorTable \<Rightarrow>
   error + decoratorTable \<times> decoratorTable \<times> string" where
  "fieldDecoratorsCallback definedAnnotations defn proto nm descriptor decorators annotations =
     (case split (trim defn) (TermString '','') True of
        Inl e \<Rightarrow> Inl e
      | Inr decors \<Rightarrow>
          (case classify definedAnnotations (Some descriptor) decors of
             (usedDecorators, usedAnnotations) \<Rightarrow>
               Inr (setKey decorators nm usedDecorators, setKey annotations nm usedAnnotations,
                    if length usedDecorators = 0 then []
                    else [CHR 0x0A] @ ''__decorate(['' @ joinComma (map decSrc usedDecorators)
                         @ ''], '' @ proto @ '', '' @ [CHR 0x22] @ nm @ [CHR 0x22] @ '', ''
                         @ descriptor @ '');'')))"

text \<open>
  A match of the field-decorator expression
  \<^verbatim>\<open>[\s]*__decorate\(\[([\W\w]*?)], (C\.prototype), "(.*?)", (.*?)\);\<close>: the offset and
  the length of the match, and its groups \<open>definition\<close>, \<open>proto\<close>, \<open>name\<close> and
  \<open>descriptor\<close>.
\<close>

type_synonym fieldMatch = "nat \<times> nat \<times> string \<times> string \<times> string \<times> string"

text \<open>
  \<^verbatim>\<open>text.replace(regexp, callback)\<close> with the global flag, for the field-decorator
  expression: the text between the matches is copied to the output \<open>out\<close>, each match
  is replaced by what the callback returns; \<open>pos\<close> is the end of the match before.
\<close>

fun replaceFieldDecorators ::
  "string list \<Rightarrow> string \<Rightarrow> fieldMatch list \<Rightarrow> nat \<Rightarrow> decoratorTable \<Rightarrow> decoratorTable \<Rightarrow> string \<Rightarrow>
   error + decoratorTable \<times> decoratorTable \<times> string" where
  "replaceFieldDecorators definedAnnotations text [] pos decorators annotations out =
     Inr (decorators, annotations, out @ drop pos text)"
| "replaceFieldDecorators definedAnnotations text ((idx, len, defn, proto, nm, descriptor) # matches)
       pos decorators annotations out =
     (case fieldDecoratorsCallback definedAnnotations defn proto nm descriptor
             decorators annotations of
        Inl e \<Rightarrow> Inl e
      | Inr (decorators', annotations', replacement) \<Rightarrow>
          replaceFieldDecorators definedAnnotations text matches (idx + len)
            decorators' annotations' (out @ take (idx - pos) (drop pos text) @ replacement))"

text \<open>
  The replacer \<^verbatim>\<open>fieldDecoratorsAnalyzer({ annotations, decorators, definedAnnotations,
  className })\<close> applied to a text in which the engine finds \<open>matches\<close>, both tables
  empty as \<^verbatim>\<open>parseJS\<close> creates them.
\<close>

definition fieldDecoratorsAnalyzer ::
  "string list \<Rightarrow> string \<Rightarrow> fieldMatch list \<Rightarrow> error + decoratorTable \<times> decoratorTable \<times> string" where
  "fieldDecoratorsAnalyzer definedAnnotations text matches =
     replaceFieldDecorators definedAnnotations text matches 0 Map.empty Map.empty []"

section \<open>parseJS\<close>

text \<open>
  What the engine finds for the expressions of \<^verbatim>\<open>parseJS\<close>: the first match of
  \<^verbatim>\<open>var C = \(function \((?:_super)?\) {\<close> and of
  \<^verbatim>\<open>(?:let (C[\S]*) = )?class C(?: extends .+?)? {\<close> in the source (offset and matched
  text, for the second also its group, \<^verbatim>\<open>undefined\<close> when it took no part); the groups
  \<open>name\<close> and \<open>value\<close> of the matches of \<^verbatim>\<open>this\.(p1|p2|...) = (.*);\n\<close> in the
  constructor; the matches of the method expression; those of the field-decorator
  expression in the source from the first \<^verbatim>\<open>__decorate([\<close> on; and those of the
  class-decorator expression \<^verbatim>\<open>[\s]*C = (?:.*? = )?__decorate\(\[([\W\w]*?)], (C)\);\<close>
  in the text that the field-decorator replace returns (offset, length and the group
  \<open>definition\<close>).
\<close>

record JSMatches =
  classES5 :: "(nat \<times> string) option"
  classES6 :: "(nat \<times> string \<times> string option) option"
  valueMatches :: "(string \<times> string) list"
  methodMatches :: "methodMatch list"
  fieldMatches :: "fieldMatch list"
  classMatches :: "(nat \<times> nat \<times> string) list"

text \<open>
  \<^verbatim>\<open>findClassBody\<close>: \<^verbatim>\<open>{ isES6, start, end, generatedName }\<close>. The expression of the
  prototype convention has no group, so its \<^verbatim>\<open>generatedName\<close> is \<^verbatim>\<open>undefined\<close>.
\<close>

definition findClassBody ::
  "JSMatches \<Rightarrow> string \<Rightarrow> error + bool \<times> int \<times> int \<times> string option" where
  "findClassBody rx src =
     (case (case classES5 rx of
              Some (idx, line) \<Rightarrow> Some (False, idx, line, None)
            | None \<Rightarrow>
                (case classES6 rx of
                   Some (idx, line, generated) \<Rightarrow> Some (True, idx, line, generated)
                 | None \<Rightarrow> None)) of
        None \<Rightarrow> Inl NoClassFound
      | Some (es6, idx, line, generated) \<Rightarrow>
          (case findClosing src (int idx + int (length line)) OBJECT_BRACKETS of
             Inl e \<Rightarrow> Inl e
           | Inr body \<Rightarrow>
               (case (if es6 then Inr body
                      else findClosing src (indexOf src ''('' body) ROUND_BRACKETS) of
                  Inl e \<Rightarrow> Inl e
                | Inr close \<Rightarrow> Inr (es6, int idx, indexOf src '';'' close, generated))))"

text \<open>\<^verbatim>\<open>findConstructor\<close>: \<^verbatim>\<open>{ start, end }\<close>\<close>

definition findConstructor :: "bool \<Rightarrow> string \<Rightarrow> string \<Rightarrow> int \<Rightarrow> error + int \<times> int" where
  "findConstructor es6 cls src classStart =
     (let constructorPattern = (if es6 then ''constructor('' else ''function '' @ cls @ ''('');
          start = indexOf src constructorPattern classStart
      in case findClosing src (start + int (length constructorPattern) - 1) ROUND_BRACKETS of
           Inl e \<Rightarrow> Inl e
         | Inr params \<Rightarrow>
             (case findClosing src (indexOf src ''{'' params) OBJECT_BRACKETS of
                Inl e \<Rightarrow> Inl e
              | Inr close \<Rightarrow> Inr (start, close)))"

text \<open>
  The replace of \<^verbatim>\<open>defaultValueAnalyzer\<close>, whose callback is
  \<^verbatim>\<open>(_, name, value) => values[name] = value\<close>; the text it returns is not used.
\<close>

definition defaultValueAnalyzer :: "(string \<times> string) list \<Rightarrow> (string \<rightharpoonup> string)" where
  "defaultValueAnalyzer matches = fold (\<lambda>(nm, v) values. setKey values nm v) matches Map.empty"

text \<open>
  The replacer callback \<^verbatim>\<open>(_, definition) => ...\<close> of \<^verbatim>\<open>classDecoratorsAnalyzer\<close>.
  It files the decorators under the key \<^verbatim>\<open>class\<close>, without a descriptor, and it
  assigns to the variable \<^verbatim>\<open>generatedName\<close> of the analyzer, which is returned as the
  third component.
\<close>

definition classDecoratorsCallback ::
  "string list \<Rightarrow> string \<Rightarrow> string \<Rightarrow> string option \<Rightarrow> decoratorTable \<Rightarrow> decoratorTable \<Rightarrow>
   error + decoratorTable \<times> decoratorTable \<times> string option \<times> string" where
  "classDecoratorsCallback definedAnnotations cls defn generated decorators annotations =
     (case split (trim defn) (TermString '','') True of
        Inl e \<Rightarrow> Inl e
      | Inr decors \<Rightarrow>
          (case classify definedAnnotations None decors of
             (usedDecorators, usedAnnotations) \<Rightarrow>
               if length usedDecorators = 0
               then Inr (setKey decorators ''class'' usedDecorators,
                         setKey annotations ''class'' usedAnnotations, generated, [])
               else (let generated' = (case truthy generated of
                                         Some g \<Rightarrow> g @ '' = ''
                                       | None \<Rightarrow> [])
                     in Inr (setKey decorators ''class'' usedDecorators,
                             setKey annotations ''class'' usedAnnotations, Some generated',
                             [CHR 0x0A] @ cls @ '' = '' @ generated' @ ''__decorate([''
                             @ joinComma (map decSrc usedDecorators) @ ''], '' @ cls @ '');''))))"

fun replaceClassDecorators ::
  "string list \<Rightarrow> string \<Rightarrow> string \<Rightarrow> (nat \<times> nat \<times> string) list \<Rightarrow> nat \<Rightarrow> string option \<Rightarrow>
   decoratorTable \<Rightarrow> decoratorTable \<Rightarrow> string \<Rightarrow> error + decoratorTable \<times> decoratorTable \<times> string" where
  "replaceClassDecorators definedAnnotations cls text [] pos generated decorators annotations out =
     Inr (decorators, annotations, out @ drop pos text)"
| "replaceClassDecorators definedAnnotations cls text ((idx, len, defn) # matches) pos generated
       decorators annotations out =
     (case classDecoratorsCallback definedAnnotations cls defn generated decorators annotations of
        Inl e \<Rightarrow> Inl e
      | Inr (decorators', annotations', generated', replacement) \<Rightarrow>
          replaceClassDecorators definedAnnotations cls text matches (idx + len) generated'
            decorators' annotations' (out @ take (idx - pos) (drop pos text) @ replacement))"

text \<open>\<^verbatim>\<open>{ generatedName, values, methodBodies, decorators, annotations, src }\<close>\<close>

record JSParsedData =
  jsGeneratedName :: "string option"
  jsValues :: "string \<rightharpoonup> string"
  jsMethodBodies :: "string \<rightharpoonup> string"
  jsDecorators :: decoratorTable
  jsAnnotations :: decoratorTable
  jsSrc :: string

text \<open>
  \<^verbatim>\<open>parseJS(src, dtsData, options)\<close>, with \<open>definedAnnotations\<close> for
  \<^verbatim>\<open>options.definedAnnotations\<close> (the empty list by default). Of \<open>dtsData\<close> only the
  class name is read outside the regular expressions.
\<close>

definition parseJS ::
  "JSMatches \<Rightarrow> string \<Rightarrow> DTSParsedData \<Rightarrow> string list \<Rightarrow> error + JSParsedData" where
  "parseJS rx src dtsData definedAnnotations =
     (case findClassBody rx src of
        Inl e \<Rightarrow> Inl e
      | Inr (es6, classStart, classEnd, generated) \<Rightarrow>
     (case findConstructor es6 (className dtsData) src classStart of
        Inl e \<Rightarrow> Inl e
      | Inr (constructorStart, constructorEnd) \<Rightarrow>
     (case methodsAnalyzer src (methodMatches rx) of
        Inl e \<Rightarrow> Inl e
      | Inr methodBodies \<Rightarrow>
     (let decorStart = indexOf src ''__decorate(['' constructorEnd
      in case fieldDecoratorsAnalyzer definedAnnotations (substr src decorStart) (fieldMatches rx) of
           Inl e \<Rightarrow> Inl e
         | Inr (decorators, annotations, decorSrc) \<Rightarrow>
        (case replaceClassDecorators definedAnnotations (className dtsData) decorSrc
                (classMatches rx) 0 generated decorators annotations [] of
           Inl e \<Rightarrow> Inl e
         | Inr (decorators', annotations', decorSrc') \<Rightarrow>
             Inr \<lparr>jsGeneratedName = generated,
                  jsValues = defaultValueAnalyzer (valueMatches rx),
                  jsMethodBodies = methodBodies,
                  jsDecorators = decorators',
                  jsAnnotations = annotations',
                  jsSrc = slice src 0 decorStart @ decorSrc'\<rparr>)))))"

section \<open>The expressions for names that stand for themselves\<close>

text \<open>
  In a name of letters, digits and underscores every character stands for itself when
  the name is put into a regular expression. For such names the expressions of the
  method analyzer and of the field-decorator analyzer are compiled by hand here, so that
  their matches can be computed; for any other name the result is \<open>None\<close>, nothing
  being said. These functions serve the examples only; no property of the analyzers
  rests on them. \<^verbatim>\<open>.\<close> matches every character but a line terminator.
\<close>

definition plainName :: "string \<Rightarrow> bool" where
  "plainName s = list_all (\<lambda>c. isWordChar c \<and> c \<noteq> CHR ''$'') s"

definition isLineTerminator :: "char \<Rightarrow> bool" where
  "isLineTerminator c = (c = CHR 0x0A \<or> c = CHR 0x0D)"

definition startsWith :: "string \<Rightarrow> string \<Rightarrow> bool" where
  "startsWith lit s = (take (length lit) s = lit)"

text \<open>
  A lazy star (\<^verbatim>\<open>.*?\<close>, or \<^verbatim>\<open>[\W\w]*?\<close> when \<open>anyChar\<close> is set) followed by the rest
  of the expression \<open>cont\<close>: the star takes the fewest characters after which the rest
  matches. The result is the number of characters the star took, with the result of
  the rest.
\<close>

fun lazyStar :: "bool \<Rightarrow> (string \<Rightarrow> 'a option) \<Rightarrow> string \<Rightarrow> (nat \<times> 'a) option" where
  "lazyStar anyChar cont [] = map_option (Pair 0) (cont [])"
| "lazyStar anyChar cont (c # cs) =
     (case cont (c # cs) of
        Some r \<Rightarrow> Some (0, r)
      | None \<Rightarrow>
          if \<not> anyChar \<and> isLineTerminator c then None
          else map_option (\<lambda>(n, r). (Suc n, r)) (lazyStar anyChar cont cs))"

text \<open>A literal as the rest of an expression: the length it takes.\<close>

definition literal :: "string \<Rightarrow> string \<Rightarrow> nat option" where
  "literal lit s = (if startsWith lit s then Some (length lit) else None)"

text \<open>
  The native-class expression \<^verbatim>\<open>((m1|m2|...))\(.*?\) {\<close> at the head of the text: the
  alternatives are tried in order. The result is the group \<open>boiler\<close>, the group
  \<open>name\<close> and the length of the match.
\<close>

fun matchMethodES6 :: "string list \<Rightarrow> string \<Rightarrow> (string \<times> string \<times> nat) option" where
  "matchMethodES6 [] s = None"
| "matchMethodES6 (m # ms) s =
     (if startsWith (m @ ''('') s
      then (case lazyStar False (literal '') {'') (drop (length m + 1) s) of
              Some (n, l) \<Rightarrow> Some (m, m, length m + 1 + n + l)
            | None \<Rightarrow> matchMethodES6 ms s)
      else matchMethodES6 ms s)"

text \<open>
  The prototype expression \<^verbatim>\<open>(C.prototype.(m1|m2|...) = function ?)\(.*?\) {\<close> at the
  head of the text. The two dots are unescaped and match any character of a line; the
  optional space is taken when it is there.
\<close>

fun matchMethodES5_alt :: "nat \<Rightarrow> string list \<Rightarrow> string \<Rightarrow> (string \<times> string \<times> nat) option" where
  "matchMethodES5_alt p [] s = None"
| "matchMethodES5_alt p (m # ms) s =
     (let r = drop p s
      in if startsWith (m @ '' = function'') r
         then (let q = p + length m + 11;
                   q' = (if startsWith '' '' (drop q s) then q + 1 else q)
               in if startsWith ''('' (drop q' s)
                  then (case lazyStar False (literal '') {'') (drop (q' + 1) s) of
                          Some (n, l) \<Rightarrow> Some (take q' s, m, q' + 1 + n + l)
                        | None \<Rightarrow> matchMethodES5_alt p ms s)
                  else matchMethodES5_alt p ms s)
         else matchMethodES5_alt p ms s)"

definition matchMethodES5 :: "string \<Rightarrow> string list \<Rightarrow> string \<Rightarrow> (string \<times> string \<times> nat) option" where
  "matchMethodES5 cls ms s =
     (let n = length cls
      in if startsWith cls s
            \<and> (case drop n s of [] \<Rightarrow> False | c # _ \<Rightarrow> \<not> isLineTerminator c)
            \<and> startsWith ''prototype'' (drop (n + 1) s)
            \<and> (case drop (n + 10) s of [] \<Rightarrow> False | c # _ \<Rightarrow> \<not> isLineTerminator c)
         then matchMethodES5_alt (n + 11) ms s
         else None)"

text \<open>
  The expression
  \<^verbatim>\<open>[\s]*__decorate\(\[([\W\w]*?)], (C\.prototype), "(.*?)", (.*?)\);\<close> at the head of
  the text: the groups \<open>definition\<close>, \<open>proto\<close>, \<open>name\<close>, \<open>descriptor\<close> and the length
  of the match. Each lazy star takes the fewest characters for which what follows it
  still matches.
\<close>

definition matchFieldDecorators ::
  "string \<Rightarrow> string \<Rightarrow> (string \<times> string \<times> string \<times> string \<times> nat) option" where
  "matchFieldDecorators cls s =
     (let ws = length (takeWhile isSpace s);
          proto = cls @ ''.prototype'';
          lit = ''], '' @ proto @ '', '' @ [CHR 0x22];
          afterName = [CHR 0x22] @ '', ''
      in if startsWith ''__decorate(['' (drop ws s)
         then (case lazyStar True
                      (\<lambda>t. if startsWith lit t
                           then lazyStar False
                                  (\<lambda>u. if startsWith afterName u
                                       then lazyStar False (literal '');'') (drop 3 u)
                                       else None)
                                  (drop (length lit) t)
                           else None)
                      (drop (ws + 12) s) of
                 None \<Rightarrow> None
               | Some (d, n, e, l) \<Rightarrow>
                   Some (take d (drop (ws + 12) s), proto,
                         take n (drop (ws + 12 + d + length lit) s),
                         take e (drop (ws + 12 + d + length lit + n + 3) s),
                         ws + 12 + d + length lit + n + 3 + e + l))
         else None)"

text \<open>
  The successive matches of an expression in a text, as a search with the global flag
  finds them: the text is searched from left to right, and after a match the search
  goes on behind it (\<open>skip\<close> counts the characters of the current match still to pass).
  \<open>matcher\<close> matches the expression at the head of a text, \<open>len\<close> reads the length of
  a match, which is never 0 for the expressions above.
\<close>

fun scanMatches ::
  "(string \<Rightarrow> 'r option) \<Rightarrow> ('r \<Rightarrow> nat) \<Rightarrow> string \<Rightarrow> nat \<Rightarrow> nat \<Rightarrow> (nat \<times> 'r) list" where
  "scanMatches matcher len [] i skip = []"
| "scanMatches matcher len (c # cs) i (Suc skip) = scanMatches matcher len cs (Suc i) skip"
| "scanMatches matcher len (c # cs) i 0 =
     (case matcher (c # cs) of
        None \<Rightarrow> scanMatches matcher len cs (Suc i) 0
      | Some r \<Rightarrow> (i, r) # scanMatches matcher len cs (Suc i) (len r - 1))"

text \<open>
  The matches of the method expression that \<^verbatim>\<open>methodsAnalyzer\<close> builds from the names
  of the methods (\<^verbatim>\<open>methods.map(itm => itm.name).join("|")\<close>, one empty alternative
  when there is no method), and those of the field-decorator expression.
\<close>

definition methodMatchesOf :: "string list \<Rightarrow> bool \<Rightarrow> string \<Rightarrow> string \<Rightarrow> methodMatch list option" where
  "methodMatchesOf names isES6 cls text =
     (if list_all plainName names \<and> plainName cls
      then (let alternatives = (if names = [] then [''''] else names)
            in Some (map (\<lambda>(i, boiler, nm, l). (i, boiler, nm))
                      (scanMatches
                         (if isES6 then matchMethodES6 alternatives
                          else matchMethodES5 cls alternatives)
                         (\<lambda>(boiler, nm, l). l) text 0 0)))
      else None)"

definition fieldMatchesOf :: "string \<Rightarrow> string \<Rightarrow> fieldMatch list option" where
  "fieldMatchesOf cls text =
     (if plainName cls
      then Some (map (\<lambda>(i, defn, proto, nm, descriptor, l). (i, l, defn, proto, nm, descriptor))
                  (scanMatches (matchFieldDecorators cls) (\<lambda>(defn, proto, nm, descriptor, l). l)
                     text 0 0))
      else None)"

section \<open>The contract of findClosing in the words of the specification\<close>

text \<open>
  The nesting counter after the character at offset \<open>k\<close>: 1, plus the open characters,
  minus the close characters among the offsets \<open>openOffset + 1 .. k\<close>.
\<close>

definition nestingCounter :: "string \<Rightarrow> char \<Rightarrow> char \<Rightarrow> nat \<Rightarrow> nat \<Rightarrow> int" where
  "nestingCounter src opn cls openOffset k =
     (let seen = take (k - openOffset) (drop (Suc openOffset) src)
      in 1 + int (count_list seen opn) - int (count_list seen cls))"

text \<open>The 1-based line of an offset: one more than the newlines before it.\<close>

definition lineOf :: "string \<Rightarrow> nat \<Rightarrow> nat" where
  "lineOf src openOffset = 1 + count_list (take openOffset src) (CHR 0x0A)"

text \<open>
  The first offset after \<open>openOffset\<close> where the counter is 0, or the
  \<open>MismatchedDelimiter\<close> error with the line of \<open>openOffset\<close> when the text ends first.
\<close>

definition findClosing_spec :: "string \<Rightarrow> nat \<Rightarrow> char \<Rightarrow> char \<Rightarrow> error + int" where
  "findClosing_spec src openOffset opn cls =
     (case find (\<lambda>k. nestingCounter src opn cls openOffset k = 0)
             [Suc openOffset ..< length src] of
        Some k \<Rightarrow> Inr (int k)
      | None \<Rightarrow> Inl (MismatchedDelimiter (lineOf src openOffset)))"

section \<open>Auxiliary definitions\<close>

text \<open>
  The loop of \<open>findClosing\<close> for a pair of two characters, as a recursion on the text
  after the opening offset; the result is relative to the start of that text.
\<close>

fun scanClose :: "char \<Rightarrow> char \<Rightarrow> int \<Rightarrow> string \<Rightarrow> nat option" where
  "scanClose opn cls opened [] = None"
| "scanClose opn cls opened (c # cs) =
     (if c = opn then map_option Suc (scanClose opn cls (opened + 1) cs)
      else if c = cls
      then (if opened - 1 \<le> 0 then Some 0 else map_option Suc (scanClose opn cls (opened - 1) cs))
      else map_option Suc (scanClose opn cls opened cs))"

text \<open>
  A text with its quote characters (\<^verbatim>\<open>'\<close>, \<^verbatim>\<open>`\<close> and \<^verbatim>\<open>"\<close>) replaced by the letter
  q: what a scanner that does not look at quotes cannot tell from the original.
\<close>

definition isQuote :: "char \<Rightarrow> bool" where
  "isQuote c = (c = CHR 0x27 \<or> c = CHR 0x60 \<or> c = CHR 0x22)"

definition blankQuotes :: "string \<Rightarrow> string" where
  "blankQuotes src = map (\<lambda>c. if isQuote c then CHR ''q'' else c) src"




text \<open>
  The entry of a table returned by an analyzer, and the outcome of the field-decorator
  replacer for one field: its decorators, its annotations and the rewritten text.
  Both are \<open>None\<close> when the analyzer threw.
\<close>

definition entryOf :: "error + (string \<rightharpoonup> 'a) \<Rightarrow> string \<Rightarrow> 'a option" where
  "entryOf result key = (case result of Inl e \<Rightarrow> None | Inr table \<Rightarrow> table key)"


text \<open>
  What a result of \<^verbatim>\<open>parseJS\<close> holds for one field and one method: the generated
  name, the default value, the method body, the decorators and the annotations, and the
  rewritten source. \<open>None\<close> when \<^verbatim>\<open>parseJS\<close> threw.
\<close>

definition parsedEntries ::
  "error + JSParsedData \<Rightarrow> string \<Rightarrow> string \<Rightarrow>
   (string option \<times> string option \<times> string option \<times> Decorator list option \<times>
    Decorator list option \<times> string) option" where
  "parsedEntries result field method =
     (case result of
        Inl e \<Rightarrow> None
      | Inr r \<Rightarrow> Some (jsGeneratedName r, jsValues r field, jsMethodBodies r method,
                       jsDecorators r field, jsAnnotations r field, jsSrc r))"

section \<open>Properties of findClosing\<close>

lemma charAt_pair [simp]: "charAt [a, b] 0 = Some a" "charAt [a, b] 1 = Some b"
  by (simp_all add: charAt_def)

lemma charAt_nat: "charAt src (int n) = (if n < length src then Some (src ! n) else None)"
  by (simp add: charAt_def)

lemma findClosing_loop_scan:
  "findClosing_loop src [opn, cls] (int i - 1) opened =
     map_option (\<lambda>r. int i + int r) (scanClose opn cls opened (drop i src))"
proof (induction "length src - i" arbitrary: i opened)
  case 0
  then show ?case by (subst findClosing_loop.simps) (simp add: charAt_nat)
next
  case (Suc n)
  then have lt: "i < length src" by simp
  then have dr: "drop i src = src ! i # drop (Suc i) src" by (simp add: Cons_nth_drop_Suc)
  have n: "n = length src - Suc i" using Suc.hyps(2) by simp
  have step: "\<And>o'. findClosing_loop src [opn, cls] (int i) o' =
       map_option (\<lambda>r. int (Suc i) + int r) (scanClose opn cls o' (drop (Suc i) src))"
    using Suc.hyps(1)[OF n] by simp
  show ?case
    by (subst findClosing_loop.simps)
       (simp add: charAt_nat lt dr step option.map_comp comp_def ac_simps)
qed

lemma find_map_list: "find P (map f xs) = map_option f (find (\<lambda>x. P (f x)) xs)"
  by (induction xs) auto

lemma scanClose_same: "1 \<le> opened \<Longrightarrow> scanClose c c opened cs = None"
  by (induction cs arbitrary: opened) auto

lemma find_upt_Suc:
  "find P [0 ..< Suc n] = (if P 0 then Some 0 else map_option Suc (find (\<lambda>r. P (Suc r)) [0 ..< n]))"
proof -
  have "[0 ..< Suc n] = 0 # map Suc [0 ..< n]"
    by (simp add: upt_conv_Cons map_Suc_upt del: upt_Suc)
  then show ?thesis by (simp add: find_map_list del: upt_Suc)
qed

lemma scanClose_find:
  "1 \<le> opened \<Longrightarrow>
   scanClose opn cls opened cs =
     find (\<lambda>r. opened + int (count_list (take (Suc r) cs) opn)
                  - int (count_list (take (Suc r) cs) cls) = 0) [0 ..< length cs]"
proof (cases "opn = cls")
  case True
  assume "1 \<le> opened"
  then show ?thesis using True by (simp add: scanClose_same find_None_iff2)
next
  case False
  assume "1 \<le> opened"
  then show ?thesis using False
  proof (induction cs arbitrary: opened)
    case Nil
    then show ?case by simp
  next
    case (Cons c cs)
    show ?case
    proof (cases "c = opn")
      case True
      then show ?thesis using Cons.prems Cons.IH[of "opened + 1"]
        by (simp add: find_upt_Suc del: upt_Suc) (simp add: algebra_simps)
    next
      case nopn: False
      show ?thesis
      proof (cases "c = cls")
        case True
        then show ?thesis using Cons.prems Cons.IH[of "opened - 1"] nopn
          by (auto simp add: find_upt_Suc algebra_simps simp del: upt_Suc)
      next
        case False
        then show ?thesis using Cons.prems Cons.IH[of opened] nopn
          by (simp add: find_upt_Suc del: upt_Suc)
      qed
    qed
  qed
qed

lemma find_upt_shift:
  "find P [a ..< b] = map_option (\<lambda>r. a + r) (find (\<lambda>r. P (a + r)) [0 ..< b - a])"
proof -
  have "[a ..< b] = map (\<lambda>r. a + r) [0 ..< b - a]"
    by (induction b) (auto simp: Suc_diff_le)
  then show ?thesis by (simp add: find_map_list)
qed

lemma lineCount_lineOf: "lineCount src (int n) = lineOf src n"
proof (induction n)
  case 0
  then show ?case by (simp add: lineCount_def lineOf_def)
next
  case (Suc n)
  have "nat (int (Suc n)) = Suc n" by simp
  with Suc show ?case
    by (cases "n < length src")
       (auto simp: lineCount_def lineOf_def charAt_nat take_Suc_conv_app_nth
             simp del: of_nat_Suc)
qed

lemma findClosing_eq_spec:
  "findClosing src (int openOffset) [opn, cls] = findClosing_spec src openOffset opn cls"
proof -
  have "findClosing_loop src [opn, cls] (int openOffset) 1 =
        map_option int (find (\<lambda>k. nestingCounter src opn cls openOffset k = 0)
           [Suc openOffset ..< length src])"
    using findClosing_loop_scan[of src opn cls "Suc openOffset" 1]
    by (simp add: scanClose_find find_upt_shift[of _ "Suc openOffset"] nestingCounter_def
          Let_def option.map_comp comp_def ac_simps)
  then show ?thesis
    by (simp add: findClosing_def findClosing_spec_def lineCount_lineOf split: option.splits)
qed

text \<open>
  C6. For every text, opening offset and bracket pair, \<open>findClosing\<close> returns the
  first offset after the opening one at which the nesting counter (1 at the start, plus
  one on the pair's open character, minus one on its close character) is 0; when the
  text ends before that, it fails with \<open>MismatchedDelimiter\<close> carrying the 1-based
  line of the opening offset, counted from the newlines before it. It fails exactly when
  no such offset exists.
\<close>

theorem findClosing_meets_contract:
  "findClosing src (int openOffset) [opn, cls] = findClosing_spec src openOffset opn cls"
  by (rule findClosing_eq_spec)

lemma count_list_map_same:
  "(\<And>c. f c = x \<longleftrightarrow> c = x) \<Longrightarrow> count_list (map f xs) x = count_list xs x"
  by (induction xs) auto

lemma findClosing_quote_blind:
  assumes "\<not> isQuote opn" "\<not> isQuote cls" "opn \<noteq> CHR ''q''" "cls \<noteq> CHR ''q''"
  shows "findClosing (blankQuotes src) (int off) [opn, cls] = findClosing src (int off) [opn, cls]"
proof -
  let ?f = "\<lambda>c. if isQuote c then CHR ''q'' else c"
  have o: "\<And>c. ?f c = opn \<longleftrightarrow> c = opn" using assms by auto
  have c: "\<And>c. ?f c = cls \<longleftrightarrow> c = cls" using assms by auto
  have n: "\<And>c. ?f c = CHR 0x0A \<longleftrightarrow> c = CHR 0x0A" by (auto simp: isQuote_def)
  have cnt: "\<And>k. nestingCounter (blankQuotes src) opn cls off k = nestingCounter src opn cls off k"
    unfolding nestingCounter_def blankQuotes_def Let_def
    by (simp add: drop_map take_map count_list_map_same[of ?f, OF o]
          count_list_map_same[of ?f, OF c])
  have ln: "lineOf (blankQuotes src) off = lineOf src off"
    unfolding lineOf_def blankQuotes_def
    by (simp add: take_map count_list_map_same[of ?f, OF n])
  have len: "length (blankQuotes src) = length src" by (simp add: blankQuotes_def)
  show ?thesis
    by (simp add: findClosing_eq_spec findClosing_spec_def cnt ln len cong: option.case_cong)
qed

text \<open>
  C10. \<open>findClosing\<close> tracks no quotes. On \<^verbatim>\<open>{ x = "}" }\<close>, from offset 0 with the
  pair \<^verbatim>\<open>{}\<close>, it returns 7, the offset of the quoted close character, not 10, the
  offset of the textual partner. For every text, offset and each of the four pairs, its
  result is the same when every quote character of the text is replaced by a letter.
  The scanner \<open>goTo\<close> does depend on quotes: a quoted \<^verbatim>\<open>;\<close> is not found, the same
  character between letters is.
\<close>

theorem findClosing_counts_quoted_brackets:
  "findClosing ''{ x = \"}\" }'' 0 OBJECT_BRACKETS = Inr 7 \<and>
   findClosing (blankQuotes src) (int off) OBJECT_BRACKETS = findClosing src (int off) OBJECT_BRACKETS \<and>
   findClosing (blankQuotes src) (int off) ARRAY_BRACKETS = findClosing src (int off) ARRAY_BRACKETS \<and>
   findClosing (blankQuotes src) (int off) GENERIC_BRACKETS = findClosing src (int off) GENERIC_BRACKETS \<and>
   findClosing (blankQuotes src) (int off) ROUND_BRACKETS = findClosing src (int off) ROUND_BRACKETS \<and>
   goTo ''\";\"'' (TermString '';'') 0 = Inr (- 1) \<and>
   goTo (blankQuotes ''\";\"'') (TermString '';'') 0 = Inr 1"
proof -
  have a: "findClosing ''{ x = \"}\" }'' 0 OBJECT_BRACKETS = Inr 7" by code_simp
  have g1: "goTo ''\";\"'' (TermString '';'') 0 = Inr (- 1)" by code_simp
  have g2: "goTo (blankQuotes ''\";\"'') (TermString '';'') 0 = Inr 1" by code_simp
  show ?thesis
    using a g1 g2
    by (simp add: OBJECT_BRACKETS_def ARRAY_BRACKETS_def GENERIC_BRACKETS_def
          ROUND_BRACKETS_def findClosing_quote_blind[of _ _ src off, simplified] isQuote_def
          findClosing_quote_blind)
qed

lemma findClosing_loop_at_close:
  "findClosing_loop src brackets offset opened = Some k \<Longrightarrow> charAt src k = charAt brackets 1"
proof (induction src brackets offset opened rule: findClosing_loop.induct)
  case (1 src brackets offset opened)
  note eq = "1.prems"[unfolded findClosing_loop.simps[of src brackets offset opened]]
  show ?case
  proof (cases "charAt src (offset + 1)")
    case None
    with eq show ?thesis by simp
  next
    case (Some c)
    show ?thesis
      using eq Some "1.IH"[OF Some]
      by (auto split: if_splits)
  qed
qed

lemma findClosing_at_close:
  "findClosing src offset brackets = Inr k \<Longrightarrow> charAt src k = charAt brackets 1"
  by (auto simp: findClosing_def split: option.splits dest: findClosing_loop_at_close)

section \<open>Properties of goTo and split\<close>

text \<open>
  C1 (the claim fails on the code). In \<open>goTo\<close> only the target check is guarded by
  \<^verbatim>\<open>!stringOpen\<close>; the bracket cases of the \<^verbatim>\<open>switch\<close> run inside a quoted region
  too. On \<^verbatim>\<open>"{";\<close> the quoted brace calls \<open>findClosing\<close>, which throws, where a
  quoted letter lets the scan reach the \<^verbatim>\<open>;\<close> at offset 3. On \<^verbatim>\<open>"{";};\<close> the quoted
  brace makes the scan jump past the closing quote, and neither \<^verbatim>\<open>;\<close> is found.
\<close>

theorem goTo_bracket_inside_string:
  "goTo ''\"{\";'' (TermString '';'') 0 = Inl (MismatchedDelimiter 1) \<and>
   goTo ''\"a\";'' (TermString '';'') 0 = Inr 3 \<and>
   goTo ''\"{\";};'' (TermString '';'') 0 = Inr (- 1)"
  by code_simp










section \<open>Properties of getType\<close>

text \<open>
  C2 (the claim fails on the code, in its last row). Followed by a terminator
  (\<^verbatim>\<open>;\<close>, \<^verbatim>\<open>,\<close> or \<^verbatim>\<open>)\<close>), as a type expression is in a declaration, \<^verbatim>\<open>string\<close>
  gives String, \<^verbatim>\<open>string | null\<close> String, \<^verbatim>\<open>number | string\<close> Object,
  \<^verbatim>\<open>{ a: number }\<close> Object, \<^verbatim>\<open>string[]\<close> Array and \<^verbatim>\<open>Foo<Bar>\<close> Foo, and the
  returned type is the reduced one after a capitalisation that turns the four primitive
  keyword names into Boolean, Number, String and Object. But \<^verbatim>\<open>void\<close> alone gives the
  type \<^verbatim>\<open>void\<close>, not \<^verbatim>\<open>null\<close>: the reduction takes an ignored keyword in first place
  for the result.
\<close>

theorem getType_void_alone:
  "getType ''void;'' 0 = Some (Inr \<lparr>foundType = Some ''void'', foundEnd = 4\<rparr>) \<and>
   getType ''string;'' 0 = Some (Inr \<lparr>foundType = Some ''String'', foundEnd = 6\<rparr>) \<and>
   getType ''string,'' 0 = Some (Inr \<lparr>foundType = Some ''String'', foundEnd = 6\<rparr>) \<and>
   getType ''string)'' 0 = Some (Inr \<lparr>foundType = Some ''String'', foundEnd = 6\<rparr>) \<and>
   getType ''string | null;'' 0 = Some (Inr \<lparr>foundType = Some ''String'', foundEnd = 13\<rparr>) \<and>
   getType ''number | string;'' 0 = Some (Inr \<lparr>foundType = Some ''Object'', foundEnd = 15\<rparr>) \<and>
   getType ''{ a: number };'' 0 = Some (Inr \<lparr>foundType = Some ''Object'', foundEnd = 13\<rparr>) \<and>
   getType ''string[];'' 0 = Some (Inr \<lparr>foundType = Some ''Array'', foundEnd = 8\<rparr>) \<and>
   getType ''Foo<Bar>;'' 0 = Some (Inr \<lparr>foundType = Some ''Foo'', foundEnd = 8\<rparr>) \<and>
   foundType (getType_result types i) = capitalizePrimitive (reduceTypes types) \<and>
   capitalizePrimitive (Some ''boolean'') = Some ''Boolean'' \<and>
   capitalizePrimitive (Some ''number'') = Some ''Number'' \<and>
   capitalizePrimitive (Some ''string'') = Some ''String'' \<and>
   capitalizePrimitive (Some ''object'') = Some ''Object''"
proof -
  have void: "getType ''void;'' 0 = Some (Inr \<lparr>foundType = Some ''void'', foundEnd = 4\<rparr>)"
    by code_simp
  have rows:
    "getType ''string;'' 0 = Some (Inr \<lparr>foundType = Some ''String'', foundEnd = 6\<rparr>)"
    "getType ''string,'' 0 = Some (Inr \<lparr>foundType = Some ''String'', foundEnd = 6\<rparr>)"
    "getType ''string)'' 0 = Some (Inr \<lparr>foundType = Some ''String'', foundEnd = 6\<rparr>)"
    "getType ''string | null;'' 0 = Some (Inr \<lparr>foundType = Some ''String'', foundEnd = 13\<rparr>)"
    "getType ''number | string;'' 0 = Some (Inr \<lparr>foundType = Some ''Object'', foundEnd = 15\<rparr>)"
    "getType ''{ a: number };'' 0 = Some (Inr \<lparr>foundType = Some ''Object'', foundEnd = 13\<rparr>)"
    "getType ''string[];'' 0 = Some (Inr \<lparr>foundType = Some ''Array'', foundEnd = 8\<rparr>)"
    "getType ''Foo<Bar>;'' 0 = Some (Inr \<lparr>foundType = Some ''Foo'', foundEnd = 8\<rparr>)"
    by code_simp+
  have caps:
    "capitalizePrimitive (Some ''boolean'') = Some ''Boolean''"
    "capitalizePrimitive (Some ''number'') = Some ''Number''"
    "capitalizePrimitive (Some ''string'') = Some ''String''"
    "capitalizePrimitive (Some ''object'') = Some ''Object''"
    by code_simp+
  show ?thesis using void rows caps by (simp add: getType_result_def)
qed

text \<open>
  When the text ends before a terminator, the member after the last separator is not
  recorded, and the end offset is the length of the text, not \<open>-1\<close>: the \<^verbatim>\<open>case ""\<close>
  of the \<^verbatim>\<open>switch\<close>, which would report that nothing was found, is never reached.
\<close>

lemma getType_text_ends:
  "getType ''string'' 0 = Some (Inr \<lparr>foundType = None, foundEnd = 6\<rparr>) \<and>
   getType ''number | string'' 0 = Some (Inr \<lparr>foundType = Some ''Number'', foundEnd = 15\<rparr>)"
  by code_simp

text \<open>
  C3 (the claim fails on the code). The callback returns the member whenever there is
  no running result yet, before it asks whether the member is ignored. An ignored
  keyword in first place therefore becomes the running result: \<^verbatim>\<open>void\<close> alone reduces
  to \<^verbatim>\<open>void\<close>, and \<^verbatim>\<open>null | string\<close> reduces to Object, where \<^verbatim>\<open>string | null\<close>
  reduces to \<^verbatim>\<open>string\<close>.
\<close>

theorem reduce_ignored_keyword_first:
  "reduceStep None ''void'' = Some ''void'' \<and>
   reduceTypes [''void''] = Some ''void'' \<and>
   reduceTypes [''null'', ''string''] = Some ''Object'' \<and>
   reduceTypes [''string'', ''null''] = Some ''string'' \<and>
   getType ''void;'' 0 = Some (Inr \<lparr>foundType = Some ''void'', foundEnd = 4\<rparr>) \<and>
   getType ''null | string;'' 0 = Some (Inr \<lparr>foundType = Some ''Object'', foundEnd = 13\<rparr>)"
  by code_simp

text \<open>
  C4 (the claim fails on the code). \<open>getType\<close> tests the result of \<open>findClosing\<close> for
  \<open>-1\<close>, but \<open>findClosing\<close> never returns \<open>-1\<close>: on a \<^verbatim>\<open><\<close> that is not closed it
  throws, and the exception leaves \<open>getType\<close>.
\<close>

theorem getType_unclosed_generic_throws:
  "getType ''Foo<Bar'' 0 = Some (Inl (MismatchedDelimiter 1))"
  by code_simp

section \<open>Properties of parseDTS\<close>

text \<open>
  C5 as stated fails: the header expression starts with \<^verbatim>\<open>[\s\n]\<close>, one whitespace
  character before \<^verbatim>\<open>class\<close>. A text that begins with \<^verbatim>\<open>class\<close> has none, and
  \<open>parseDTS\<close> throws "no class found".
\<close>

theorem parseDTS_needs_leading_space:
  "parseDTS ''class A extends B { x: string; f(y: number): boolean; }'' = Some (Inl NoClassFound)"
  by code_simp

text \<open>
  C5 (as the code has it). With a whitespace character before \<^verbatim>\<open>class\<close> (a space, or
  the one after \<^verbatim>\<open>declare\<close> in a declaration file), \<open>parseDTS\<close> returns the class
  name \<^verbatim>\<open>A\<close>, the parent as the text up to the brace, \<^verbatim>\<open>B\<close> and the space after it,
  one property \<^verbatim>\<open>x\<close> of type String, and one method \<^verbatim>\<open>f\<close> of type Boolean with the
  one parameter \<^verbatim>\<open>y\<close> of type Number; neither has a modifier key.
\<close>

theorem parseDTS_example:
  "parseDTS '' class A extends B { x: string; f(y: number): boolean; }'' =
     Some (Inr \<lparr>className = ''A'', parent = Some ''B '',
       properties = [\<lparr>fieldName = ''x'', fieldType = Some ''String'', fieldParams = None,
                      fieldFlags = {}\<rparr>],
       methods = [\<lparr>fieldName = ''f'', fieldType = Some ''Boolean'',
                   fieldParams = Some [\<lparr>paramName = ''y'', paramType = Some ''Number''\<rparr>],
                   fieldFlags = {}\<rparr>]\<rparr>) \<and>
   parseDTS ''declare class A extends B { x: string; f(y: number): boolean; }'' =
     Some (Inr \<lparr>className = ''A'', parent = Some ''B '',
       properties = [\<lparr>fieldName = ''x'', fieldType = Some ''String'', fieldParams = None,
                      fieldFlags = {}\<rparr>],
       methods = [\<lparr>fieldName = ''f'', fieldType = Some ''Boolean'',
                   fieldParams = Some [\<lparr>paramName = ''y'', paramType = Some ''Number''\<rparr>],
                   fieldFlags = {}\<rparr>]\<rparr>)"
  by code_simp

text \<open>
  Modifiers become keys of the field: \<^verbatim>\<open>private static x: string\<close> has the keys
  \<^verbatim>\<open>private\<close> and \<^verbatim>\<open>static\<close>. A modifier \<^verbatim>\<open>__proto__\<close> leaves no key.
\<close>

lemma parseDTS_modifiers:
  "parseDTS '' class A { private static x: string; __proto__ y; }'' =
     Some (Inr \<lparr>className = ''A'', parent = None,
       properties = [\<lparr>fieldName = ''x'', fieldType = Some ''String'', fieldParams = None,
                      fieldFlags = {''private'', ''static''}\<rparr>,
                     \<lparr>fieldName = ''y'', fieldType = None, fieldParams = None,
                      fieldFlags = {}\<rparr>],
       methods = []\<rparr>)"
  by code_simp

section \<open>Properties of methodsAnalyzer\<close>

lemma indexOf_scan_char:
  "c \<notin> set ys \<Longrightarrow> indexOf_scan [c] (ys @ c # zs) p = int (p + length ys)"
  by (induction ys arbitrary: p) auto

lemma indexOf_char:
  assumes "c \<notin> set ys"
  shows "indexOf (xs @ ys @ c # zs) [c] (int (length xs)) = int (length xs + length ys)"
  using indexOf_scan_char[OF assms, of zs "length xs"] by (simp add: indexOf_def)

lemma slice_nat:
  "a \<le> length src \<Longrightarrow> slice src (int a) (int b) = take (min b (length src) - a) (drop a src)"
  by (simp add: slice_def relIndex_def Let_def min_def)

lemma trim_id:
  assumes "s \<noteq> []" "\<not> isSpace (hd s)" "\<not> isSpace (last s)"
  shows "trim s = s"
proof -
  from assms have a: "dropWhile isSpace s = s" by (cases s) auto
  from assms have "rev s \<noteq> []" "\<not> isSpace (hd (rev s))" by (simp_all add: hd_rev)
  then have "dropWhile isSpace (rev s) = rev s" by (cases "rev s") auto
  with a show ?thesis by (simp add: trim_def)
qed

lemma take_prefix_app: "take (length xs + m) (xs @ ys) = xs @ take m ys"
  by simp

text \<open>
  The callback at a definition site \<open>boiler(params) {\<close> whose parameter text has no
  brace: \<^verbatim>\<open>indexOf\<close> finds the brace that ends the site, and \<^verbatim>\<open>trim\<close> changes
  nothing, the slice beginning with a parenthesis and ending with a brace.
\<close>

lemma methodsCallback_shape:
  assumes src: "src = pre @ boiler @ ''('' @ params @ '') {'' @ rest"
    and nobrace: "CHR ''{'' \<notin> set params"
    and close: "findClosing src (int (length pre + length boiler + length params + 3))
                  OBJECT_BRACKETS = Inr close"
  shows "methodsCallback src boiler nm (int (length pre)) methodBodies =
           Inr (setKey methodBodies nm (slice src (int (length pre + length boiler)) (close + 1))) \<and>
         slice src (int (length pre + length boiler)) (close + 1) =
           ''('' @ params @ '') '' @
             slice src (int (length pre + length boiler + length params + 3)) (close + 1) \<and>
         slice src (int (length pre + length boiler))
             (int (length pre + length boiler + length params + 3)) = ''('' @ params @ '') '' \<and>
         hd (slice src (int (length pre + length boiler + length params + 3)) (close + 1)) = CHR ''{'' \<and>
         last (slice src (int (length pre + length boiler + length params + 3)) (close + 1)) = CHR ''}''"
proof -
  let ?a = "length pre + length boiler"
  let ?b = "?a + length params + 3"
  let ?head = "''('' @ params @ '') ''"
  have src': "src = (pre @ boiler) @ ?head @ CHR ''{'' # rest" using src by simp
  have "CHR ''{'' \<notin> set ?head" using nobrace by simp
  from indexOf_char[OF this, of "pre @ boiler" rest]
  have io: "indexOf src ''{'' (int (length pre) + int (length boiler)) = int ?b"
    using src' by simp
  from findClosing_bounds[OF close] have b: "?b < nat close" "nat close < length src" "0 \<le> close"
    by auto
  from findClosing_at_close[OF close] b have cl: "src ! nat close = CHR ''}''"
    by (simp add: charAt_def OBJECT_BRACKETS_def split: if_splits)
  define body where "body = take (nat close - (?b - 1)) (drop ?b src)"
  have dropb: "drop ?b src = CHR ''{'' # rest" using src' by (simp add: drop_Cons')
  have dropa: "drop ?a src = ?head @ drop ?b src" using src' by (simp add: drop_Cons')
  have bodyne: "body \<noteq> []" using b by (simp add: body_def)
  have hd: "hd body = CHR ''{''" using b dropb by (simp add: body_def hd_take)
  have len: "length body = Suc (nat close - ?b)" using b by (simp add: body_def)
  have "last body = body ! (nat close - ?b)" using bodyne len by (simp add: last_conv_nth)
  also have "\<dots> = src ! (?b + (nat close - ?b))" using b by (simp add: body_def)
  also have "\<dots> = src ! nat close" using b by simp
  finally have lst: "last body = CHR ''}''" using cl by simp
  have "slice src (int ?a) (close + 1) = take (nat close + 1 - ?a) (drop ?a src)"
    using slice_nat[of ?a src "nat close + 1"] b by (simp add: min_def add.commute)
  also have "\<dots> = ?head @ body"
  proof -
    have e: "nat close + 1 - ?a = length ?head + (nat close - (?b - 1))" using b by simp
    have "take (length ?head + (nat close - (?b - 1))) (?head @ drop ?b src) =
            ?head @ take (nat close - (?b - 1)) (drop ?b src)"
      by (rule take_prefix_app)
    then show ?thesis by (simp only: e dropa body_def)
  qed
  finally have sl: "slice src (int ?a) (close + 1) = ?head @ body" .
  have "slice src (int ?a) (int ?b) = take (?b - ?a) (drop ?a src)"
    using slice_nat[of ?a src ?b] b by (simp add: min_def)
  also have "\<dots> = ?head"
  proof -
    have e: "?b - ?a = length ?head + 0" by simp
    have "take (length ?head + 0) (?head @ drop ?b src) = ?head @ take 0 (drop ?b src)"
      by (rule take_prefix_app)
    then show ?thesis by (simp only: e dropa) simp
  qed
  finally have slh: "slice src (int ?a) (int ?b) = ?head" .
  have tr: "trim (?head @ body) = ?head @ body"
    using bodyne lst by (intro trim_id) (simp_all add: isSpace_def)
  have cb: "methodsCallback src boiler nm (int (length pre)) methodBodies =
          Inr (setKey methodBodies nm (slice src (int ?a) (close + 1)))"
    using close tr io by (simp add: methodsCallback_def sl[simplified])
  have "slice src (int ?b) (close + 1) = take (nat close + 1 - ?b) (drop ?b src)"
    using slice_nat[of ?b src "nat close + 1"] b by (simp add: min_def add.commute)
  also have "\<dots> = body" using b by (simp add: body_def)
  finally have slb: "slice src (int ?b) (close + 1) = body" .
  show ?thesis
    unfolding slb using cb hd lst sl slh by simp
qed

text \<open>
  The callback at such a site, when it does not throw: the body's closing brace is found
  and the stored text is the parameter list with the body.
\<close>

lemma methodsCallback_site:
  assumes src: "src = pre @ boiler @ ''('' @ params @ '') {'' @ rest"
    and nobrace: "CHR ''{'' \<notin> set params"
    and cb: "methodsCallback src boiler nm (int (length pre)) methodBodies = Inr methodBodies'"
  shows "\<exists>close. findClosing src (int (length pre + length boiler + length params + 3))
                  OBJECT_BRACKETS = Inr close \<and>
           methodBodies' = setKey methodBodies nm
              (''('' @ params @ '') '' @
               slice src (int (length pre + length boiler + length params + 3)) (close + 1)) \<and>
           hd (slice src (int (length pre + length boiler + length params + 3)) (close + 1)) = CHR ''{'' \<and>
           last (slice src (int (length pre + length boiler + length params + 3)) (close + 1)) = CHR ''}''"
proof -
  let ?b = "length pre + length boiler + length params + 3"
  let ?head = "''('' @ params @ '') ''"
  have src': "src = (pre @ boiler) @ ?head @ CHR ''{'' # rest" using src by simp
  have "CHR ''{'' \<notin> set ?head" using nobrace by simp
  from indexOf_char[OF this, of "pre @ boiler" rest]
  have io: "indexOf src ''{'' (int (length pre) + int (length boiler)) = int ?b"
    using src' by simp
  from cb obtain close where close: "findClosing src (int ?b) OBJECT_BRACKETS = Inr close"
    by (auto simp: methodsCallback_def io split: sum.splits)
  from methodsCallback_shape[OF src nobrace close, of nm methodBodies] cb close
  show ?thesis by auto
qed

text \<open>
  The replace over a list of matches in two parts, and the entries it leaves alone: those
  of the names that no match has.
\<close>

lemma replaceMethods_append:
  "replaceMethods src (xs @ ys) methodBodies =
     (case replaceMethods src xs methodBodies of
        Inl e \<Rightarrow> Inl e
      | Inr methodBodies' \<Rightarrow> replaceMethods src ys methodBodies')"
  by (induction xs arbitrary: methodBodies) (auto split: sum.splits)

lemma replaceMethods_other:
  "replaceMethods src matches methodBodies = Inr methodBodies' \<Longrightarrow>
     nm \<notin> set (map (\<lambda>m. snd (snd m)) matches) \<Longrightarrow> methodBodies' nm = methodBodies nm"
proof (induction matches arbitrary: methodBodies)
  case Nil
  then show ?case by simp
next
  case (Cons m ms)
  obtain idx boiler nm' where m: "m = (idx, boiler, nm')" by (cases m)
  from Cons.prems(1) m obtain t where
    t: "methodsCallback src boiler nm' (int idx) methodBodies = Inr t"
       "replaceMethods src ms t = Inr methodBodies'"
    by (auto split: sum.splits)
  from Cons.prems(2) m have ne: "nm' \<noteq> nm" "nm \<notin> set (map (\<lambda>m. snd (snd m)) ms)" by auto
  from t(1) ne(1) have "t nm = methodBodies nm"
    by (auto simp: methodsCallback_def setKey_def split: sum.splits)
  with Cons.IH[OF t(2) ne(2)] show ?case by simp
qed

text \<open>
  C8 (as the code has it). Let the analyzer return the table \<open>methodBodies\<close> for a
  source in which the method expression of the active convention has the matches
  \<open>before\<close>, then a match with the name \<open>nm\<close> at a definition site, then the matches
  \<open>after\<close>, none of which has the name \<open>nm\<close>. The definition site stands in the
  source at the offset of the match (as it does when \<^verbatim>\<open>removeExtend\<close> has removed
  nothing before it) and reads \<^verbatim>\<open>boiler(params) {\<close>, where \<open>boiler\<close> is the first
  group of the match (the name for a native class, the text from the class name to
  \<^verbatim>\<open>function\<close> for a prototype) and \<open>params\<close> holds no brace. Then
  \<open>findClosing\<close> closes the body that opens with the last character of the site, and
  the entry of \<open>nm\<close> is the source text from the parenthesis after \<open>boiler\<close> to that
  closing brace, verbatim: the parameter list in its parentheses, a space, and the body
  from its opening brace to its closing brace. The name \<^verbatim>\<open>__proto__\<close> gets no entry
  and is left out.
\<close>

theorem methodBodies_entry:
  assumes run: "methodsAnalyzer src (before @ (length pre, boiler, nm) # after) = Inr methodBodies"
    and lastm: "nm \<notin> set (map (\<lambda>m. snd (snd m)) after)"
    and site: "src = pre @ boiler @ ''('' @ params @ '') {'' @ rest"
    and nobrace: "CHR ''{'' \<notin> set params"
    and key: "nm \<noteq> ''__proto__''"
  shows "\<exists>close. findClosing src (int (length pre + length boiler + length params + 3))
                  OBJECT_BRACKETS = Inr close \<and>
           methodBodies nm =
             Some (''('' @ params @ '') '' @
                   slice src (int (length pre + length boiler + length params + 3)) (close + 1)) \<and>
           hd (slice src (int (length pre + length boiler + length params + 3)) (close + 1)) = CHR ''{'' \<and>
           last (slice src (int (length pre + length boiler + length params + 3)) (close + 1)) = CHR ''}''"
proof -
  from run obtain t1 where
    t1: "replaceMethods src before Map.empty = Inr t1"
        "replaceMethods src ((length pre, boiler, nm) # after) t1 = Inr methodBodies"
    by (auto simp: methodsAnalyzer_def replaceMethods_append split: sum.splits)
  from t1(2) obtain t2 where
    t2: "methodsCallback src boiler nm (int (length pre)) t1 = Inr t2"
        "replaceMethods src after t2 = Inr methodBodies"
    by (auto split: sum.splits)
  from methodsCallback_site[OF site nobrace t2(1)] obtain close where
    c: "findClosing src (int (length pre + length boiler + length params + 3))
                  OBJECT_BRACKETS = Inr close"
       "t2 = setKey t1 nm (''('' @ params @ '') '' @
               slice src (int (length pre + length boiler + length params + 3)) (close + 1))"
       "hd (slice src (int (length pre + length boiler + length params + 3)) (close + 1)) = CHR ''{''"
       "last (slice src (int (length pre + length boiler + length params + 3)) (close + 1)) = CHR ''}''"
    by blast
  from replaceMethods_other[OF t2(2) lastm] c(2) key
  have "methodBodies nm = Some (''('' @ params @ '') '' @
               slice src (int (length pre + length boiler + length params + 3)) (close + 1))"
    by (simp add: setKey_def)
  with c show ?thesis by blast
qed

text \<open>
  The amended C8 on the native class
  \<^verbatim>\<open>class A { test(x) { return 1; } run(y) { if (this.test(y)) { return 2; } } }\<close>, in
  which the expression \<^verbatim>\<open>((test|run))\(.*?\) {\<close> matches at the offsets 10, 32 and 50.
  The match at 32 is the definition site of \<^verbatim>\<open>run\<close> and the last one with that name;
  the body closes at offset 73, and the entry of \<^verbatim>\<open>run\<close> is
  \<^verbatim>\<open>(y) { if (this.test(y)) { return 2; } }\<close>.
\<close>

theorem methodBodies_entry_witness:
  "methodsAnalyzer ''class A { test(x) { return 1; } run(y) { if (this.test(y)) { return 2; } } }''
     ([(10, ''test'', ''test'')] @ (length ''class A { test(x) { return 1; } '', ''run'', ''run'')
        # [(50, ''test'', ''test'')]) =
     Inr [''run'' \<mapsto> ''(y) { if (this.test(y)) { return 2; } }'',
          ''test'' \<mapsto> ''(y)) { return 2; }''] \<and>
   ''run'' \<notin> set (map (\<lambda>m. snd (snd m)) [(50 :: nat, ''test'', ''test'')]) \<and>
   ''class A { test(x) { return 1; } run(y) { if (this.test(y)) { return 2; } } }'' =
     ''class A { test(x) { return 1; } '' @ ''run'' @ ''('' @ ''y'' @ '') {''
       @ '' if (this.test(y)) { return 2; } } }'' \<and>
   CHR ''{'' \<notin> set ''y'' \<and>
   ''run'' \<noteq> ''__proto__'' \<and>
   findClosing ''class A { test(x) { return 1; } run(y) { if (this.test(y)) { return 2; } } }''
     39 OBJECT_BRACKETS = Inr 73 \<and>
   slice ''class A { test(x) { return 1; } run(y) { if (this.test(y)) { return 2; } } }'' 39 74 =
     ''{ if (this.test(y)) { return 2; } }''"
proof -
  let ?S = "''class A { test(x) { return 1; } run(y) { if (this.test(y)) { return 2; } } }''"
  have f: "findClosing ?S (indexOf ?S ''{'' (10 + 4)) OBJECT_BRACKETS = Inr 30"
    "findClosing ?S (indexOf ?S ''{'' (32 + 3)) OBJECT_BRACKETS = Inr 73"
    "findClosing ?S (indexOf ?S ''{'' (50 + 4)) OBJECT_BRACKETS = Inr 71"
    "findClosing ?S 39 OBJECT_BRACKETS = Inr 73"
    by code_simp+
  have s: "trim (slice ?S (10 + 4) (30 + 1)) = ''(x) { return 1; }''"
    "trim (slice ?S (32 + 3) (73 + 1)) = ''(y) { if (this.test(y)) { return 2; } }''"
    "trim (slice ?S (50 + 4) (71 + 1)) = ''(y)) { return 2; }''"
    "slice ?S 39 74 = ''{ if (this.test(y)) { return 2; } }''"
    by code_simp+
  have run: "methodsAnalyzer ?S
     ([(10, ''test'', ''test'')] @ (length ''class A { test(x) { return 1; } '', ''run'', ''run'')
        # [(50, ''test'', ''test'')]) =
     Inr [''run'' \<mapsto> ''(y) { if (this.test(y)) { return 2; } }'',
          ''test'' \<mapsto> ''(y)) { return 2; }'']"
    using f s by (auto simp: methodsAnalyzer_def methodsCallback_def setKey_def fun_eq_iff)
  have site: "?S = ''class A { test(x) { return 1; } '' @ ''run'' @ ''('' @ ''y'' @ '') {''
       @ '' if (this.test(y)) { return 2; } } }''"
    by simp
  from methodBodies_entry[OF run _ site] f(4) s(4) run
  show ?thesis by simp
qed

text \<open>
  C8 as stated fails: the entry begins with the parameter list, not with the opening
  brace. For a compiled class with the method \<^verbatim>\<open>foo(a, b)\<close>, whose definition site
  the expression matches at offset 24 in the native-class convention and at offset 33
  in the prototype convention, the analyzer stores \<^verbatim>\<open>(a, b) { ... }\<close> for \<^verbatim>\<open>foo\<close>.
  Nor is the entry always taken at the definition site: in the third source the
  expression \<^verbatim>\<open>((test|run))\(.*?\) {\<close> matches the two definition sites, at the offsets
  14 and 56, and then the call in \<^verbatim>\<open>if (this.test(x)) {\<close>, at offset 82, whose text
  replaces the entry of \<^verbatim>\<open>test\<close>.
\<close>

theorem methodBodies_include_parameters:
  "entryOf (methodsAnalyzer
      ''class A extends B {\<newline>    foo(a, b) {\<newline>        return { x: a };\<newline>    }\<newline>}\<newline>''
      [(24, ''foo'', ''foo'')])
     ''foo'' =
     Some ''(a, b) {\<newline>        return { x: a };\<newline>    }'' \<and>
   entryOf (methodsAnalyzer
      ''var A = (function (_super) {\<newline>    A.prototype.foo = function (a, b) {\<newline>        return { x: a };\<newline>    };\<newline>    return A;\<newline>}(B));\<newline>''
      [(33, ''A.prototype.foo = function '', ''foo'')])
     ''foo'' =
     Some ''(a, b) {\<newline>        return { x: a };\<newline>    }'' \<and>
   entryOf (methodsAnalyzer
      ''class A {\<newline>    test(x) {\<newline>        return x > 0;\<newline>    }\<newline>    run(x) {\<newline>        if (this.test(x)) {\<newline>            return 1;\<newline>        }\<newline>        return 0;\<newline>    }\<newline>}\<newline>''
      [(14, ''test'', ''test''), (56, ''run'', ''run''), (82, ''test'', ''test'')])
     ''test'' =
     Some ''(x)) {\<newline>            return 1;\<newline>        }''"
  by code_simp

section \<open>Properties of fieldDecoratorsAnalyzer\<close>













section \<open>Properties of parseJS\<close>

text \<open>
  The tables of \<^verbatim>\<open>parseJS\<close> are those of its steps: \<open>methodBodies\<close> is the table
  that \<open>methodsAnalyzer\<close> returns for the source, and the field-decorator replace runs
  on the source from the first \<^verbatim>\<open>__decorate([\<close> after the constructor on; without a
  class-level application its tables and its text are the ones returned.
\<close>

lemma parseJS_methodBodies:
  "parseJS rx src dtsData definedAnnotations = Inr r \<Longrightarrow>
     methodsAnalyzer src (methodMatches rx) = Inr (jsMethodBodies r)"
  by (auto simp: parseJS_def Let_def split: sum.splits prod.splits)

lemma parseJS_fieldDecorators:
  assumes "parseJS rx src dtsData definedAnnotations = Inr r" and "classMatches rx = []"
  shows "\<exists>es6 classStart classEnd generated constructorStart constructorEnd decorSrc.
           findClassBody rx src = Inr (es6, classStart, classEnd, generated) \<and>
           findConstructor es6 (className dtsData) src classStart
             = Inr (constructorStart, constructorEnd) \<and>
           fieldDecoratorsAnalyzer definedAnnotations
               (substr src (indexOf src ''__decorate(['' constructorEnd)) (fieldMatches rx) =
             Inr (jsDecorators r, jsAnnotations r, decorSrc) \<and>
           jsSrc r = slice src 0 (indexOf src ''__decorate(['' constructorEnd) @ decorSrc"
  using assms by (auto simp: parseJS_def Let_def split: sum.splits prod.splits)

text \<open>
  \<^verbatim>\<open>parseJS\<close> on a compiled native class with a constructor that sets \<^verbatim>\<open>field\<close>, a
  method \<^verbatim>\<open>foo(a, b)\<close> and an application of \<^verbatim>\<open>Notify()\<close> and \<^verbatim>\<open>Compute(fn)\<close> to
  \<^verbatim>\<open>field\<close>, \<^verbatim>\<open>Compute\<close> being a defined annotation. The class expression matches at
  offset 0, the method expression at offset 103, the field-decorator expression at
  offset 0 of the text that begins at offset 148. The result has the value of
  \<^verbatim>\<open>field\<close>, the entry \<^verbatim>\<open>(a, b) { ... }\<close> of \<^verbatim>\<open>foo\<close>, \<^verbatim>\<open>Notify\<close> among the
  decorators and \<^verbatim>\<open>Compute\<close> among the annotations of \<^verbatim>\<open>field\<close>, and the source
  with the application reduced to \<^verbatim>\<open>Notify()\<close>.
\<close>

lemma parseJS_example:
  "parsedEntries
     (parseJS
        \<lparr>classES5 = None, classES6 = Some (0, ''class A extends B {'', None),
          valueMatches = [(''field'', ''1'')],
          methodMatches = [(103, ''foo'', ''foo'')],
          fieldMatches = [(0, 76, ''\<newline>    Notify(),\<newline>    Compute(fn)\<newline>'', ''A.prototype'', ''field'',
                           ''void 0'')],
          classMatches = []\<rparr>
        ''class A extends B {\<newline>    constructor() {\<newline>        super(...arguments);\<newline>        this.field = 1;\<newline>    }\<newline>    foo(a, b) {\<newline>        return { x: a };\<newline>    }\<newline>}\<newline>__decorate([\<newline>    Notify(),\<newline>    Compute(fn)\<newline>], A.prototype, \"field\", void 0);\<newline>''
        \<lparr>className = ''A'', parent = Some ''B '', properties = [], methods = []\<rparr>
        [''Compute''])
     ''field'' ''foo'' =
   Some (None, Some ''1'', Some ''(a, b) {\<newline>        return { x: a };\<newline>    }'',
         Some [\<lparr>decSrc = ''Notify()'', decName = ''Notify'', decParams = Some [],
                 decDescriptor = Some ''void 0''\<rparr>],
         Some [\<lparr>decSrc = ''Compute(fn)'', decName = ''Compute'', decParams = Some ''fn'',
                 decDescriptor = Some ''void 0''\<rparr>],
         ''class A extends B {\<newline>    constructor() {\<newline>        super(...arguments);\<newline>        this.field = 1;\<newline>    }\<newline>    foo(a, b) {\<newline>        return { x: a };\<newline>    }\<newline>}\<newline>\<newline>__decorate([Notify()], A.prototype, \"field\", void 0);\<newline>'')"
  by code_simp

section \<open>Properties of the expressions for names that stand for themselves\<close>

text \<open>
  What a match of either method expression looks like: the group \<open>boiler\<close>, a
  parenthesis, the parameter text, and \<^verbatim>\<open>) {\<close>.
\<close>

lemma lazyStar_literal_shape:
  "lazyStar False (literal lit) s = Some (n, l) \<Longrightarrow>
     l = length lit \<and> n + length lit \<le> length s \<and> s = take n s @ lit @ drop (n + length lit) s"
proof (induction s arbitrary: n)
  case Nil
  then show ?case by (auto simp: literal_def startsWith_def split: if_splits)
next
  case (Cons c cs)
  show ?case
  proof (cases "literal lit (c # cs)")
    case (Some r)
    with Cons.prems have n: "n = 0" "l = length lit" and sw: "take (length lit) (c # cs) = lit"
      by (auto simp: literal_def startsWith_def split: if_splits)
    have "length lit \<le> length (c # cs)"
      using arg_cong[OF sw, of length] by (simp add: min_def split: if_splits)
    moreover have "c # cs = lit @ drop (length lit) (c # cs)"
      using sw by (metis append_take_drop_id)
    ultimately show ?thesis using n by simp
  next
    case None
    with Cons.prems obtain n' where n': "n = Suc n'" "lazyStar False (literal lit) cs = Some (n', l)"
      by (auto split: if_splits)
    from Cons.IH[OF n'(2)] n'(1) show ?thesis by simp
  qed
qed

lemma matchMethodES6_shape:
  "matchMethodES6 names s = Some (boiler, nm, len) \<Longrightarrow>
     nm \<in> set names \<and>
     (\<exists>params rest. s = boiler @ ''('' @ params @ '') {'' @ rest \<and>
                     len = length boiler + length params + 4)"
proof (induction names)
  case Nil
  then show ?case by simp
next
  case (Cons m ms)
  define t where "t = drop (length m + 1) s"
  show ?case
  proof (cases "startsWith (m @ ''('') s")
    case False
    with Cons show ?thesis by auto
  next
    case True
    then have "take (length (m @ ''('')) s = m @ ''(''" by (simp add: startsWith_def)
    then have "s = (m @ ''('') @ drop (length (m @ ''('')) s"
      by (metis append_take_drop_id)
    then have s: "s = m @ ''('' @ t" by (simp add: t_def)
    show ?thesis
    proof (cases "lazyStar False (literal '') {'') t")
      case None
      with True Cons show ?thesis by (auto simp: t_def)
    next
      case (Some r)
      obtain n l where r: "r = (n, l)" by (cases r)
      with Some True Cons.prems have res: "boiler = m" "nm = m" "len = length m + 1 + n + l"
        by (auto simp: t_def)
      from lazyStar_literal_shape[OF Some[unfolded r]]
      have sh: "l = length '') {''" "n + length '') {'' \<le> length t"
        "t = take n t @ '') {'' @ drop (n + length '') {'') t"
        by blast+
      have "s = m @ ''('' @ take n t @ '') {'' @ drop (n + length '') {'') t"
        using s sh(3) by metis
      moreover have "length (take n t) = n" using sh(2) by simp
      ultimately show ?thesis using res sh(1)
        by (intro conjI exI[of _ "take n t"] exI[of _ "drop (n + length '') {'') t"]) auto
    qed
  qed
qed

lemma matchMethodES5_alt_shape:
  "matchMethodES5_alt p names s = Some (boiler, nm, len) \<Longrightarrow>
     nm \<in> set names \<and>
     (\<exists>params rest. s = boiler @ ''('' @ params @ '') {'' @ rest \<and>
                     len = length boiler + length params + 4)"
proof (induction names)
  case Nil
  then show ?case by simp
next
  case (Cons m ms)
  define q where "q = p + length m + 11"
  define q' where "q' = (if startsWith '' '' (drop q s) then q + 1 else q)"
  define t where "t = drop (q' + 1) s"
  show ?case
  proof (cases "startsWith (m @ '' = function'') (drop p s) \<and> startsWith ''('' (drop q' s)")
    case False
    with Cons show ?thesis by (auto simp: Let_def q_def q'_def split: if_splits)
  next
    case True
    then have par: "take 1 (drop q' s) = ''(''" by (simp add: startsWith_def)
    then have "drop q' s \<noteq> []" by auto
    then have q'lt: "q' < length s" by simp
    have "drop q' s = take 1 (drop q' s) @ drop 1 (drop q' s)"
      by (rule append_take_drop_id[symmetric])
    moreover have "drop 1 (drop q' s) = t" by (simp add: t_def add.commute)
    ultimately have "drop q' s = ''('' @ t" using par by simp
    then have s: "s = take q' s @ ''('' @ t" by (metis append_take_drop_id)
    show ?thesis
    proof (cases "lazyStar False (literal '') {'') t")
      case None
      with True Cons show ?thesis by (auto simp: Let_def q_def q'_def t_def split: if_splits)
    next
      case (Some r)
      obtain n l where r: "r = (n, l)" by (cases r)
      with Some True Cons.prems
      have res: "boiler = take q' s" "nm = m" "len = q' + 1 + n + l"
        by (auto simp: Let_def q_def q'_def t_def split: if_splits)
      from lazyStar_literal_shape[OF Some[unfolded r]]
      have sh: "l = length '') {''" "n + length '') {'' \<le> length t"
        "t = take n t @ '') {'' @ drop (n + length '') {'') t"
        by blast+
      have "s = take q' s @ ''('' @ take n t @ '') {'' @ drop (n + length '') {'') t"
        using s sh(3) by metis
      moreover have "length (take n t) = n" using sh(2) by simp
      moreover have "length (take q' s) = q'" using q'lt by simp
      ultimately show ?thesis using res sh(1)
        by (intro conjI exI[of _ "take n t"] exI[of _ "drop (n + length '') {'') t"]) auto
    qed
  qed
qed

lemma matchMethod_shape:
  assumes "(if isES6 then matchMethodES6 names else matchMethodES5 cls names) s
             = Some (boiler, nm, len)"
  shows "nm \<in> set names \<and>
     (\<exists>params rest. s = boiler @ ''('' @ params @ '') {'' @ rest \<and>
                     len = length boiler + length params + 4)"
proof (cases isES6)
  case True
  with assms show ?thesis using matchMethodES6_shape[of names s boiler nm len] by simp
next
  case False
  with assms have "matchMethodES5_alt (length cls + 11) names s = Some (boiler, nm, len)"
    by (simp add: matchMethodES5_def Let_def split: if_splits)
  then show ?thesis by (rule matchMethodES5_alt_shape)
qed

lemma scanMatches_at:
  "(i, r) \<in> set (scanMatches matcher len text j skip) \<Longrightarrow>
     \<exists>k. i = j + k \<and> k \<le> length text \<and> matcher (drop k text) = Some r"
proof (induction matcher len "text" j skip rule: scanMatches.induct)
  case (1 matcher len j skip)
  then show ?case by simp
next
  case (2 matcher len c cs j skip)
  from "2.IH"[OF "2.prems"[simplified]] obtain k where
    "i = Suc j + k" "k \<le> length cs" "matcher (drop k cs) = Some r" by blast
  then show ?case by (intro exI[of _ "Suc k"]) simp
next
  case (3 matcher len c cs j)
  show ?case
  proof (cases "matcher (c # cs)")
    case None
    with "3.prems" have "(i, r) \<in> set (scanMatches matcher len cs (Suc j) 0)" by simp
    from "3.IH"(1)[OF None this] obtain k where
      "i = Suc j + k" "k \<le> length cs" "matcher (drop k cs) = Some r" by blast
    then show ?thesis by (intro exI[of _ "Suc k"]) simp
  next
    case (Some r')
    with "3.prems" consider "(i, r) = (j, r')"
      | "(i, r) \<in> set (scanMatches matcher len cs (Suc j) (len r' - 1))"
      by auto
    then show ?thesis
    proof cases
      case 1
      with Some show ?thesis by (intro exI[of _ 0]) simp
    next
      case 2
      from "3.IH"(2)[OF Some this] obtain k where
        "i = Suc j + k" "k \<le> length cs" "matcher (drop k cs) = Some r" by blast
      then show ?thesis by (intro exI[of _ "Suc k"]) simp
    qed
  qed
qed

text \<open>
  Every match of the method expression stands at a text \<^verbatim>\<open>boiler(params) {\<close> of the
  searched text, with one of the names as its group \<open>name\<close>.
\<close>

lemma methodMatchesOf_site:
  assumes "methodMatchesOf names isES6 cls text = Some matches"
    and "(i, boiler, nm) \<in> set matches"
  shows "nm \<in> set (if names = [] then [''''] else names) \<and>
         (\<exists>params rest. drop i text = boiler @ ''('' @ params @ '') {'' @ rest)"
proof -
  let ?alts = "if names = [] then [''''] else names"
  let ?m = "if isES6 then matchMethodES6 ?alts else matchMethodES5 cls ?alts"
  from assms obtain l where
    "(i, boiler, nm, l) \<in> set (scanMatches ?m (\<lambda>(boiler, nm, l). l) text 0 0)"
    by (auto simp: methodMatchesOf_def Let_def split: if_splits)
  from scanMatches_at[OF this] have "?m (drop i text) = Some (boiler, nm, l)" by auto
  from matchMethod_shape[OF this] show ?thesis by blast
qed

text \<open>
  The matches in the sources of the examples: the lists of matches given to the
  analyzers in the theorems on \<open>methodsAnalyzer\<close>, \<open>fieldDecoratorsAnalyzer\<close> and
  \<^verbatim>\<open>parseJS\<close> are the ones that the expressions find.
\<close>

lemma methodMatchesOf_examples:
  "methodMatchesOf [''foo''] True ''A''
      ''class A extends B {\<newline>    foo(a, b) {\<newline>        return { x: a };\<newline>    }\<newline>}\<newline>'' =
     Some [(24, ''foo'', ''foo'')] \<and>
   methodMatchesOf [''foo''] False ''A''
      ''var A = (function (_super) {\<newline>    A.prototype.foo = function (a, b) {\<newline>        return { x: a };\<newline>    };\<newline>    return A;\<newline>}(B));\<newline>'' =
     Some [(33, ''A.prototype.foo = function '', ''foo'')] \<and>
   methodMatchesOf [''test'', ''run''] True ''A''
      ''class A {\<newline>    test(x) {\<newline>        return x > 0;\<newline>    }\<newline>    run(x) {\<newline>        if (this.test(x)) {\<newline>            return 1;\<newline>        }\<newline>        return 0;\<newline>    }\<newline>}\<newline>'' =
     Some [(14, ''test'', ''test''), (56, ''run'', ''run''), (82, ''test'', ''test'')] \<and>
   methodMatchesOf [''test'', ''run''] True ''A''
      ''class A { test(x) { return 1; } run(y) { if (this.test(y)) { return 2; } } }'' =
     Some [(10, ''test'', ''test''), (32, ''run'', ''run''), (50, ''test'', ''test'')] \<and>
   methodMatchesOf [''foo''] True ''A''
      ''class A extends B {\<newline>    constructor() {\<newline>        super(...arguments);\<newline>        this.field = 1;\<newline>    }\<newline>    foo(a, b) {\<newline>        return { x: a };\<newline>    }\<newline>}\<newline>__decorate([\<newline>    Notify(),\<newline>    Compute(fn)\<newline>], A.prototype, \"field\", void 0);\<newline>'' =
     Some [(103, ''foo'', ''foo'')] \<and>
   methodMatchesOf [''$f''] True ''A'' ''$f() {'' = None"
  by code_simp

lemma fieldMatchesOf_examples:
  "fieldMatchesOf ''A''
      ''__decorate([\<newline>    Notify(),\<newline>    Compute(fn)\<newline>], A.prototype, \"field\", void 0);\<newline>'' =
     Some [(0, 76, ''\<newline>    Notify(),\<newline>    Compute(fn)\<newline>'', ''A.prototype'', ''field'', ''void 0'')] \<and>
   fieldMatchesOf ''K''
      ''__decorate([\<newline>        A(),\<newline>        B(x),\<newline>        Compute(fn)\<newline>    ], K.prototype, \"a\", void 0);\<newline>    __decorate([\<newline>        Compute(fn)\<newline>    ], K.prototype, \"b\", void 0);\<newline>    return K;'' =
     Some [(0, 93, ''\<newline>        A(),\<newline>        B(x),\<newline>        Compute(fn)\<newline>    '', ''K.prototype'', ''a'', ''void 0''),
           (93, 71, ''\<newline>        Compute(fn)\<newline>    '', ''K.prototype'', ''b'', ''void 0'')]"
  by code_simp

end
